theory Spec2Isabelle
  imports Complex_Main "HOL-Library.Monad_Syntax"
begin

section \<open>The ray tracer of App.tsx\<close>

text \<open>
  The numbers of the program are JavaScript doubles. They are modelled here as
  real numbers: every arithmetic operation is exact, \<open>Math.sqrt\<close> is the real
  square root (it is only ever applied to non-negative arguments), and
  \<open>Infinity\<close>, \<open>null\<close> and \<open>undefined\<close> are modelled by \<open>None\<close>. Rounding is not
  part of these definitions. Two statements (C8 and C9) assert exact equalities
  that rounding breaks; for them \<open>normalize\<close> and \<open>reflect\<close> are modelled a second
  time on doubles, as \<open>normalize_d\<close> and \<open>reflect_d\<close>, in the last section of the
  definitions.
\<close>

subsection \<open>Data\<close>

record Vector2 =
  x :: real
  y :: real

datatype ObjType = Prism | Mirror | Light | Target

record OpticObject =
  obj_id :: string
  obj_type :: ObjType
  position :: Vector2
  rotation :: real
  obj_size :: real

text \<open>The result of \<open>getMirrorSegment\<close>: \<open>{p1, p2, normal}\<close>.\<close>

record MirrorSegment =
  seg_p1 :: Vector2
  seg_p2 :: Vector2
  seg_normal :: Vector2

text \<open>The result of \<open>lineIntersect\<close>: \<open>{point, t, u}\<close>, where \<open>point\<close> may be \<open>null\<close>.\<close>

record Intersection =
  inter_point :: "Vector2 option"
  inter_t :: real
  inter_u :: real

text \<open>
  An emitted segment \<open>{start, end, color}\<close>. The colour is \<open>COLORS[colorIndex]\<close>,
  which is \<open>undefined\<close> (here \<open>None\<close>) when the index is outside the palette.
\<close>

record Segment =
  seg_start :: Vector2
  seg_end :: Vector2
  color :: "string option"

text \<open>
  The four locals \<open>minT\<close>, \<open>hitNormal\<close>, \<open>hitPoint\<close>, \<open>hitType\<close> of one
  iteration of \<open>traceRay\<close> are always assigned together. Their initial values
  (\<open>Infinity\<close>, \<open>null\<close>, \<open>null\<close>, \<open>null\<close>) are the value \<open>None\<close> of
  type \<open>Hit option\<close>.
\<close>

datatype HitType = MirrorHit | PrismHit

record Hit =
  minT :: real
  hitNormal :: Vector2
  hitPoint :: Vector2
  hitType :: HitType

subsection \<open>Vector algebra\<close>

definition add :: "Vector2 \<Rightarrow> Vector2 \<Rightarrow> Vector2" where
  "add v1 v2 = \<lparr>x = x v1 + x v2, y = y v1 + y v2\<rparr>"

definition sub :: "Vector2 \<Rightarrow> Vector2 \<Rightarrow> Vector2" where
  "sub v1 v2 = \<lparr>x = x v1 - x v2, y = y v1 - y v2\<rparr>"

definition scale :: "real \<Rightarrow> Vector2 \<Rightarrow> Vector2" where
  "scale s v = \<lparr>x = s * x v, y = s * y v\<rparr>"

definition dot :: "Vector2 \<Rightarrow> Vector2 \<Rightarrow> real" where
  "dot v1 v2 = x v1 * x v2 + y v1 * y v2"

text \<open>The local \<open>len\<close> of \<open>normalize\<close>: \<open>Math.sqrt(v.x * v.x + v.y * v.y)\<close>.\<close>

definition len :: "Vector2 \<Rightarrow> real" where
  "len v = sqrt (x v * x v + y v * y v)"

definition normalize :: "Vector2 \<Rightarrow> Vector2" where
  "normalize v =
     (if len v > 0 then \<lparr>x = x v / len v, y = y v / len v\<rparr> else \<lparr>x = 0, y = 0\<rparr>)"

definition rotate :: "Vector2 \<Rightarrow> real \<Rightarrow> Vector2" where
  "rotate v angle =
     \<lparr>x = x v * cos angle - y v * sin angle, y = x v * sin angle + y v * cos angle\<rparr>"

subsection \<open>Physics\<close>

definition reflect :: "Vector2 \<Rightarrow> Vector2 \<Rightarrow> Vector2" where
  "reflect incident normal =
     (let normalizedNormal = normalize normal;
          proj = scale (dot incident normalizedNormal) normalizedNormal
      in sub incident (scale 2 proj))"

definition refract :: "Vector2 \<Rightarrow> Vector2 \<Rightarrow> real \<Rightarrow> Vector2 option" where
  "refract incident normal eta =
     (let ni = normalize incident;
          nn = normalize normal;
          cosTheta = - dot ni nn
      in if cosTheta < 0 then None
         else let sin2Theta = 1 - cosTheta * cosTheta;
                  sin2Phi = eta * eta * sin2Theta
              in if sin2Phi > 1 then None
                 else let cosPhi = sqrt (1 - sin2Phi)
                      in Some (add (scale eta ni) (scale (- eta * cosTheta + cosPhi) nn)))"

subsection \<open>Geometric primitives\<close>

definition getMirrorSegment :: "OpticObject \<Rightarrow> MirrorSegment" where
  "getMirrorSegment obj =
     (let half = obj_size obj / 2;
          localP1 = \<lparr>x = - half, y = 0\<rparr>;
          localP2 = \<lparr>x = half, y = 0\<rparr>;
          localNormal = \<lparr>x = 0, y = 1\<rparr>
      in \<lparr>seg_p1 = add (position obj) (rotate localP1 (rotation obj)),
          seg_p2 = add (position obj) (rotate localP2 (rotation obj)),
          seg_normal = rotate localNormal (rotation obj)\<rparr>)"

definition no_intersection :: Intersection where
  "no_intersection = \<lparr>inter_point = None, inter_t = - 1, inter_u = - 1\<rparr>"

definition lineIntersect :: "Vector2 \<Rightarrow> Vector2 \<Rightarrow> Vector2 \<Rightarrow> Vector2 \<Rightarrow> Intersection" where
  "lineIntersect origin dir q1 q2 =
     (let denom = (x dir * (y q2 - y q1)) - (y dir * (x q2 - x q1))
      in if \<bar>denom\<bar> < 1 / 1000000 then no_intersection
         else let t = ((x origin - x q1) * (y q2 - y q1) - (y origin - y q1) * (x q2 - x q1)) / denom;
                  u = - ((x dir * (y origin - y q1)) - (y dir * (x origin - x q1))) / denom
              in if t \<ge> 0 \<and> u \<ge> 0 \<and> u \<le> 1
                 then \<lparr>inter_point = Some (add origin (scale t dir)), inter_t = t, inter_u = u\<rparr>
                 else no_intersection)"

subsection \<open>One iteration of the bounce loop: finding the nearest hit\<close>

text \<open>\<open>t < minT\<close>, where \<open>minT\<close> is still \<open>Infinity\<close> when nothing was hit yet.\<close>

definition lt_minT :: "real \<Rightarrow> Hit option \<Rightarrow> bool" where
  "lt_minT t best = (case best of None \<Rightarrow> True | Some h \<Rightarrow> t < minT h)"

text \<open>The body of the loop over the mirrors (lines 93 to 102).\<close>

definition mirror_step :: "Vector2 \<Rightarrow> Vector2 \<Rightarrow> Hit option \<Rightarrow> OpticObject \<Rightarrow> Hit option" where
  "mirror_step origin dir best obj =
     (let seg = getMirrorSegment obj;
          inter = lineIntersect origin dir (seg_p1 seg) (seg_p2 seg)
      in case inter_point inter of
           None \<Rightarrow> best
         | Some p \<Rightarrow>
             if inter_t inter > 1 / 100 \<and> lt_minT (inter_t inter) best \<and> dot dir (seg_normal seg) < 0
             then Some \<lparr>minT = inter_t inter, hitNormal = seg_normal seg, hitPoint = p,
                        hitType = MirrorHit\<rparr>
             else best)"

text \<open>The value of the local \<open>t\<close> of the prism loop after lines 113 to 116.\<close>

definition prism_root :: "real \<Rightarrow> real \<Rightarrow> real \<Rightarrow> real" where
  "prism_root a b disc =
     (let t = (- b - sqrt disc) / (2 * a)
      in if t < 1 / 100 then (- b + sqrt disc) / (2 * a) else t)"

text \<open>The body of the loop over the prisms (lines 106 to 127).\<close>

definition prism_step :: "Vector2 \<Rightarrow> Vector2 \<Rightarrow> Hit option \<Rightarrow> OpticObject \<Rightarrow> Hit option" where
  "prism_step origin dir best obj =
     (let oc = sub (position obj) origin;
          a = 1;
          b = 2 * dot oc dir;
          c = dot oc oc - (obj_size obj / 2) ^ 2;
          disc = b * b - 4 * a * c
      in if disc < 0 then best
         else let t = prism_root a b disc
              in if t > 1 / 100 \<and> lt_minT t best
                 then let hitP = add origin (scale t dir);
                          radialNormal = normalize (sub hitP (position obj))
                      in if dot dir radialNormal < 0
                         then Some \<lparr>minT = t, hitNormal = radialNormal, hitPoint = hitP,
                                    hitType = PrismHit\<rparr>
                         else best
                 else best)"

text \<open>The filters of lines 92 and 105.\<close>

definition is_mirror :: "OpticObject \<Rightarrow> bool" where
  "is_mirror o' = (obj_type o' = Mirror \<and> obj_id o' \<noteq> ''light1'' \<and> obj_id o' \<noteq> ''target1'')"

definition is_prism :: "OpticObject \<Rightarrow> bool" where
  "is_prism o' = (obj_type o' = Prism)"

text \<open>
  Lines 86 to 127: the mirrors are scanned first, then the prisms, each in list
  order. The result is \<open>None\<close> exactly when the test of line 129 fails.
\<close>

definition find_hit :: "Vector2 \<Rightarrow> Vector2 \<Rightarrow> OpticObject list \<Rightarrow> Hit option" where
  "find_hit origin dir objects =
     (let mirrors = filter is_mirror objects;
          best = foldl (mirror_step origin dir) None mirrors;
          prisms = filter is_prism objects
      in foldl (prism_step origin dir) best prisms)"

subsection \<open>The palette\<close>

definition COLORS :: "string list" where
  "COLORS = [''red'', ''orange'', ''yellow'', ''green'', ''blue'', ''indigo'', ''violet'']"

definition REFRACTION_INDICES :: "real list" where
  "REFRACTION_INDICES = [1.331, 1.337, 1.343, 1.352, 1.369, 1.381, 1.393]"

text \<open>Array indexing \<open>xs[i]\<close>, which is \<open>undefined\<close> outside the array.\<close>

definition index :: "'a list \<Rightarrow> nat \<Rightarrow> 'a option" where
  "index xs i = (if i < length xs then Some (xs ! i) else None)"

subsection \<open>The bounce loop\<close>

definition maxBounces :: nat where
  "maxBounces = 10"

definition maxLength :: real where
  "maxLength = 1000"

text \<open>
  Lines 133 to 146: the direction after a hit. When \<open>colorIndex\<close> is outside the
  palette, \<open>eta\<close> is \<open>1 / undefined\<close>, which is \<open>NaN\<close>: \<open>refract\<close> then still returns
  \<open>null\<close> when \<open>cosTheta < 0\<close>, and otherwise both of its later comparisons are false
  and it returns a vector of \<open>NaN\<close>s, which \<open>normalize\<close> maps to the zero vector
  (\<open>len > 0\<close> is false for \<open>NaN\<close>).
\<close>

definition new_dir :: "Vector2 \<Rightarrow> nat \<Rightarrow> Hit \<Rightarrow> Vector2" where
  "new_dir dir colorIndex h =
     (let n = normalize (hitNormal h)
      in case hitType h of
           MirrorHit \<Rightarrow> normalize (reflect dir n)
         | PrismHit \<Rightarrow>
             (case index REFRACTION_INDICES colorIndex of
                Some ri \<Rightarrow>
                  (let eta = 1 / ri
                   in case refract dir (hitNormal h) eta of
                        Some refracted \<Rightarrow> normalize refracted
                      | None \<Rightarrow> normalize (reflect dir n))
              | None \<Rightarrow>
                  if - dot (normalize dir) (normalize (hitNormal h)) < 0
                  then normalize (reflect dir n)
                  else \<lparr>x = 0, y = 0\<rparr>))"

text \<open>Lines 136 and 145: the origin after a hit.\<close>

definition new_origin :: "Hit \<Rightarrow> Vector2" where
  "new_origin h =
     (let n = normalize (hitNormal h)
      in case hitType h of
           MirrorHit \<Rightarrow> add (hitPoint h) (scale (1 / 10) n)
         | PrismHit \<Rightarrow> add (hitPoint h) (scale (5 / 100) n))"

text \<open>
  The \<open>for\<close> loop of lines 85 to 158, with its variables \<open>bounce\<close>, \<open>origin\<close>,
  \<open>dir\<close>, \<open>totalLength\<close> and \<open>segments\<close> as arguments. It returns the final value
  of \<open>segments\<close>.
\<close>

function trace_loop ::
  "nat \<Rightarrow> Vector2 \<Rightarrow> Vector2 \<Rightarrow> real \<Rightarrow> nat \<Rightarrow> OpticObject list \<Rightarrow> Segment list \<Rightarrow> Segment list"
where
  "trace_loop bounce origin dir totalLength colorIndex objects segments =
     (if bounce < maxBounces then
        (case find_hit origin dir objects of
           Some h \<Rightarrow>
             (let endPoint = add origin (scale (minT h) dir);
                  segments' = segments @ [\<lparr>seg_start = origin, seg_end = endPoint,
                                           color = index COLORS colorIndex\<rparr>];
                  dir' = new_dir dir colorIndex h;
                  origin' = new_origin h;
                  totalLength' = totalLength + minT h
              in if totalLength' > maxLength then segments'
                 else trace_loop (bounce + 1) origin' dir' totalLength' colorIndex objects segments')
         | None \<Rightarrow>
             (let remaining = maxLength - totalLength
              in if remaining > 0
                 then segments @ [\<lparr>seg_start = origin,
                                   seg_end = add origin (scale remaining dir),
                                   color = index COLORS colorIndex\<rparr>]
                 else segments))
      else segments)"
  by pat_completeness auto
termination
  by (relation "measure (\<lambda>(bounce, _). maxBounces - bounce)") auto

declare trace_loop.simps [simp del]

definition traceRay :: "Vector2 \<Rightarrow> Vector2 \<Rightarrow> nat \<Rightarrow> OpticObject list \<Rightarrow> Segment list" where
  "traceRay initialOrigin initialDir colorIndex objects =
     trace_loop 0 initialOrigin (normalize initialDir) 0 colorIndex objects []"

subsection \<open>The scene driver\<close>

definition computeRays :: "OpticObject list \<Rightarrow> Segment list" where
  "computeRays objects =
     concat (map (\<lambda>light.
        concat (map (\<lambda>i. traceRay (position light) \<lparr>x = 1, y = 0\<rparr> i objects)
                    [0 ..< length COLORS]))
        (filter (\<lambda>obj. obj_type obj = Light) objects))"

text \<open>The predicate of lines 217 to 221 on one segment.\<close>

definition near_target :: "OpticObject \<Rightarrow> Segment \<Rightarrow> bool" where
  "near_target target seg =
     (let dx = x (seg_end seg) - x (position target);
          dy = y (seg_end seg) - y (position target)
      in dx * dx + dy * dy < (obj_size target / 2 + 5) ^ 2)"

text \<open>
  The effect of lines 213 to 224, as a function from the scene and the old value
  of \<open>solved\<close> to its new value: without a target \<open>setSolved\<close> is not called.
\<close>

definition solved_effect :: "OpticObject list \<Rightarrow> bool \<Rightarrow> bool" where
  "solved_effect objects old =
     (let segs = computeRays objects
      in case find (\<lambda>o'. obj_type o' = Target) objects of
           Some target \<Rightarrow> list_ex (near_target target) segs
         | None \<Rightarrow> old)"

subsection \<open>The scene and its events\<close>

text \<open>
  The component state that matters here: the \<open>objects\<close> and the \<open>solved\<close> flag.
  The scene changes only through \<open>setObjects\<close>, which is called by \<open>addObject\<close>
  (the identifier is \<open>Date.now().toString()\<close>, a parameter here), by
  \<open>updatePosition\<close> while dragging, by the rotation branch of \<open>handleMouseMove\<close>,
  and by the Puzzle 1 button. After each change the effect of lines 213 to 224
  runs again, since \<open>objects\<close> is one of its dependencies.
\<close>

record AppState =
  st_objects :: "OpticObject list"
  st_solved :: bool

datatype AddKind = AddPrism | AddMirror

datatype Event =
    AddObject AddKind string
  | UpdatePosition string Vector2
  | SetRotation string real
  | Puzzle1

definition initial_objects :: "OpticObject list" where
  "initial_objects =
     [\<lparr>obj_id = ''light1'', obj_type = Light, position = \<lparr>x = 100, y = 300\<rparr>,
        rotation = 0, obj_size = 20\<rparr>,
      \<lparr>obj_id = ''target1'', obj_type = Target, position = \<lparr>x = 600, y = 100\<rparr>,
        rotation = 0, obj_size = 30\<rparr>]"

fun apply_event :: "Event \<Rightarrow> OpticObject list \<Rightarrow> OpticObject list" where
  "apply_event (AddObject k i) prev =
     prev @ [\<lparr>obj_id = i, obj_type = (case k of AddPrism \<Rightarrow> Prism | AddMirror \<Rightarrow> Mirror),
              position = \<lparr>x = 300, y = 300\<rparr>, rotation = 0, obj_size = 40\<rparr>]"
| "apply_event (UpdatePosition i pos) prev =
     map (\<lambda>obj. if obj_id obj = i then obj\<lparr>position := pos\<rparr> else obj) prev"
| "apply_event (SetRotation i newRot) prev =
     map (\<lambda>obj. if obj_id obj = i then obj\<lparr>rotation := newRot\<rparr> else obj) prev"
| "apply_event Puzzle1 prev = initial_objects"

definition step :: "AppState \<Rightarrow> Event \<Rightarrow> AppState" where
  "step st ev =
     (let objs = apply_event ev (st_objects st)
      in \<lparr>st_objects = objs, st_solved = solved_effect objs (st_solved st)\<rparr>)"

text \<open>The state after mounting: \<open>useState(false)\<close>, then the first run of the effect.\<close>

definition initial_state :: AppState where
  "initial_state =
     \<lparr>st_objects = initial_objects, st_solved = solved_effect initial_objects False\<rparr>"

definition run :: "Event list \<Rightarrow> AppState" where
  "run evs = foldl step initial_state evs"

subsection \<open>Scenes used in the statements\<close>

text \<open>
  Two mirrors of size 40 with vertical segments, \<open>mirror_a d\<close> on the line
  \<open>x = - d\<close> between \<open>y = 20\<close> and \<open>y = 60\<close> with normal \<open>(-1, 0)\<close>, and
  \<open>mirror_b d\<close> on the line \<open>x = 2 * d - 0.1\<close> between \<open>y = - 60\<close> and \<open>y = - 20\<close>
  with normal \<open>(1, 0)\<close>. Neither meets the line \<open>y = 0\<close>.
\<close>

definition mirror_a :: "real \<Rightarrow> OpticObject" where
  "mirror_a d = \<lparr>obj_id = ''a'', obj_type = Mirror, position = \<lparr>x = - d, y = 40\<rparr>,
                 rotation = pi / 2, obj_size = 40\<rparr>"

definition mirror_b :: "real \<Rightarrow> OpticObject" where
  "mirror_b d = \<lparr>obj_id = ''b'', obj_type = Mirror, position = \<lparr>x = 2 * d - 1 / 10, y = - 40\<rparr>,
                 rotation = - (pi / 2), obj_size = 40\<rparr>"

definition cavity :: "real \<Rightarrow> OpticObject list" where
  "cavity d = [mirror_a d, mirror_b d]"

text \<open>
  The two mirrors of \<open>cavity 10\<close> among obstacles that take no part: a light, a
  target, and a mirror whose identifier is \<open>target1\<close>.
\<close>

definition decoys :: "OpticObject list" where
  "decoys =
     [\<lparr>obj_id = ''light1'', obj_type = Light, position = \<lparr>x = - 10, y = 0\<rparr>, rotation = 0,
        obj_size = 20\<rparr>,
      \<lparr>obj_id = ''target1'', obj_type = Mirror, position = \<lparr>x = - 5, y = 40\<rparr>,
        rotation = pi / 2, obj_size = 40\<rparr>,
      mirror_a 10,
      \<lparr>obj_id = ''target2'', obj_type = Target, position = \<lparr>x = 5, y = 0\<rparr>, rotation = 0,
        obj_size = 30\<rparr>,
      mirror_b 10]"

text \<open>
  What every scene the component can reach has: a target, and only obstacles of
  positive size.
\<close>

definition scene_ok :: "OpticObject list \<Rightarrow> bool" where
  "scene_ok objs = ((\<exists>ob \<in> set objs. obj_type ob = Target) \<and> (\<forall>ob \<in> set objs. 0 < obj_size ob))"

text \<open>
  A closed ring: the four sides of the square \<open>[-50, 50] \<times> [-50, 50]\<close> as mirrors
  of size 100 whose normals point into the square.
\<close>

definition ring :: "OpticObject list" where
  "ring =
     [\<lparr>obj_id = ''right'', obj_type = Mirror, position = \<lparr>x = 50, y = 0\<rparr>,
        rotation = pi / 2, obj_size = 100\<rparr>,
      \<lparr>obj_id = ''top'', obj_type = Mirror, position = \<lparr>x = 0, y = 50\<rparr>,
        rotation = pi, obj_size = 100\<rparr>,
      \<lparr>obj_id = ''left'', obj_type = Mirror, position = \<lparr>x = - 50, y = 0\<rparr>,
        rotation = - (pi / 2), obj_size = 100\<rparr>,
      \<lparr>obj_id = ''bottom'', obj_type = Mirror, position = \<lparr>x = 0, y = - 50\<rparr>,
        rotation = 0, obj_size = 100\<rparr>]"

text \<open>
  A mirror of size 40 behind a light at \<open>(100, 300)\<close> that shines along \<open>+x\<close>: its
  segment is on the line \<open>x = - 100\<close>, between \<open>y = 320\<close> and \<open>y = 360\<close>.
\<close>

definition mirror_behind :: OpticObject where
  "mirror_behind = \<lparr>obj_id = ''behind'', obj_type = Mirror, position = \<lparr>x = - 100, y = 340\<rparr>,
                     rotation = pi / 2, obj_size = 40\<rparr>"

text \<open>
  A mirror of size 40 straight ahead of the same light, facing it: its segment is
  on the line \<open>x = 300\<close>, between \<open>y = 280\<close> and \<open>y = 320\<close>, with normal \<open>(-1, 0)\<close>.
\<close>

definition mirror_ahead :: OpticObject where
  "mirror_ahead = \<lparr>obj_id = ''ahead'', obj_type = Mirror, position = \<lparr>x = 300, y = 300\<rparr>,
                    rotation = pi / 2, obj_size = 40\<rparr>"

text \<open>A prism of size 40 straight ahead of the same light, centred on the ray.\<close>

definition prism_ahead :: OpticObject where
  "prism_ahead = \<lparr>obj_id = ''prism'', obj_type = Prism, position = \<lparr>x = 300, y = 300\<rparr>,
                   rotation = 0, obj_size = 40\<rparr>"

section \<open>The vector functions on doubles\<close>

text \<open>
  The definitions above compute with real numbers. The program computes with IEEE
  754 binary64 numbers, and two statements below depend on the difference, so
  \<open>normalize\<close> and \<open>reflect\<close> are modelled a second time, with every operation
  rounded as the program rounds it (to nearest, ties to even).

  A finite double is a pair \<open>(m, e)\<close> that stands for \<open>m * 2 ^ e\<close>: zero is \<open>(0, 0)\<close>
  and every other double has \<open>2 ^ 52 \<le> \<bar>m\<bar> < 2 ^ 53\<close> and \<open>- 1074 \<le> e \<le> 971\<close>, so
  each value has one representation. Subnormal numbers, infinities and \<open>NaN\<close> are
  not modelled: an operation whose result is one of them returns \<open>None\<close>. Zero has
  no sign.
\<close>

type_synonym dbl = "int \<times> int"

text \<open>The number of binary digits of a positive integer.\<close>

function bits :: "int \<Rightarrow> nat" where
  "bits n = (if n \<le> 0 then 0 else Suc (bits (n div 2)))"
  by pat_completeness auto
termination
  by (relation "measure nat") auto

declare bits.simps [simp del]

definition finish :: "bool \<Rightarrow> int \<Rightarrow> int \<Rightarrow> dbl option" where
  "finish neg m e =
     (if - 1074 \<le> e \<and> e \<le> 971 then Some (if neg then - m else m, e) else None)"

text \<open>
  \<open>m / 2 ^ k\<close> rounded to the nearest integer, a tie to the even neighbour.
\<close>

definition round_even :: "int \<Rightarrow> nat \<Rightarrow> int" where
  "round_even m k =
     (let q = m div 2 ^ k;
          r = m mod 2 ^ k;
          h = 2 ^ (k - 1)
      in if r < h then q else if r > h then q + 1 else if even q then q else q + 1)"

text \<open>
  The double nearest to \<open>m * 2 ^ e\<close> for a natural number \<open>m\<close>, negated when \<open>neg\<close>: a
  number of at most 53 digits is exact; otherwise the \<open>k\<close> digits beyond 53 are
  rounded away.
\<close>

definition round_int :: "bool \<Rightarrow> int \<Rightarrow> int \<Rightarrow> dbl option" where
  "round_int neg m e =
     (if m = 0 then Some (0, 0)
      else let n = bits m
           in if n \<le> 53 then finish neg (m * 2 ^ (53 - n)) (e - int (53 - n))
              else let k = n - 53;
                       q' = round_even m k
                   in if q' = 2 ^ 53 then finish neg (2 ^ 52) (e + int k + 1)
                      else finish neg q' (e + int k))"

text \<open>Product, sum and difference: the exact result, rounded.\<close>

definition dmul :: "dbl \<Rightarrow> dbl \<Rightarrow> dbl option" where
  "dmul a b = round_int ((fst a < 0) \<noteq> (fst b < 0)) (\<bar>fst a\<bar> * \<bar>fst b\<bar>) (snd a + snd b)"

definition dadd :: "dbl \<Rightarrow> dbl \<Rightarrow> dbl option" where
  "dadd a b =
     (let e = min (snd a) (snd b);
          s = fst a * 2 ^ nat (snd a - e) + fst b * 2 ^ nat (snd b - e)
      in round_int (s < 0) \<bar>s\<bar> e)"

definition dsub :: "dbl \<Rightarrow> dbl \<Rightarrow> dbl option" where
  "dsub a b = dadd a (- fst b, snd b)"

text \<open>
  Quotient: the integer quotient of the mantissas with 56 more digits, and one
  last digit that records whether the division left a remainder, so that the
  rounding sees on which side of a tie the exact quotient lies.
\<close>

definition ddiv :: "dbl \<Rightarrow> dbl \<Rightarrow> dbl option" where
  "ddiv a b =
     (if fst b = 0 then None
      else if fst a = 0 then Some (0, 0)
      else let n = \<bar>fst a\<bar> * 2 ^ 56;
               q = n div \<bar>fst b\<bar>;
               r = n mod \<bar>fst b\<bar>
           in round_int ((fst a < 0) \<noteq> (fst b < 0)) (2 * q + (if r = 0 then 0 else 1))
                (snd a - snd b - 57))"

text \<open>The integer square root, digit by digit from the top.\<close>

primrec isqrt_bits :: "int \<Rightarrow> nat \<Rightarrow> int \<Rightarrow> int" where
  "isqrt_bits n 0 r = r"
| "isqrt_bits n (Suc k) r =
     (let c = r + 2 ^ k in isqrt_bits n k (if c * c \<le> n then c else r))"

definition isqrt :: "int \<Rightarrow> int" where
  "isqrt n = isqrt_bits n (bits n) 0"

text \<open>
  \<open>Math.sqrt\<close>: the mantissa is shifted so that the exponent is even and the root
  has at least 56 digits; the last digit again records whether the root is exact.
\<close>

definition dsqrt :: "dbl \<Rightarrow> dbl option" where
  "dsqrt a =
     (if fst a < 0 then None
      else if fst a = 0 then Some (0, 0)
      else let s = (if even (snd a) then 58 else 59);
               m = fst a * 2 ^ s;
               r = isqrt m
           in round_int False (2 * r + (if r * r = m then 0 else 1)) ((snd a - int s) div 2 - 1))"

text \<open>The value of a double.\<close>

definition dval :: "dbl \<Rightarrow> real" where
  "dval a = (if snd a \<ge> 0 then of_int (fst a) * 2 ^ nat (snd a)
             else of_int (fst a) / 2 ^ nat (- snd a))"

record DVector2 =
  dx :: dbl
  dy :: dbl

text \<open>\<open>Math.sqrt(v.x * v.x + v.y * v.y)\<close>, the local \<open>len\<close> of \<open>normalize\<close>.\<close>

definition len_d :: "DVector2 \<Rightarrow> dbl option" where
  "len_d v =
     do { xx \<leftarrow> dmul (dx v) (dx v);
          yy \<leftarrow> dmul (dy v) (dy v);
          s \<leftarrow> dadd xx yy;
          dsqrt s }"

definition normalize_d :: "DVector2 \<Rightarrow> DVector2 option" where
  "normalize_d v =
     do { l \<leftarrow> len_d v;
          if fst l > 0
          then do { a \<leftarrow> ddiv (dx v) l; b \<leftarrow> ddiv (dy v) l; Some \<lparr>dx = a, dy = b\<rparr> }
          else Some \<lparr>dx = (0, 0), dy = (0, 0)\<rparr> }"

definition dot_d :: "DVector2 \<Rightarrow> DVector2 \<Rightarrow> dbl option" where
  "dot_d v1 v2 =
     do { p \<leftarrow> dmul (dx v1) (dx v2); q \<leftarrow> dmul (dy v1) (dy v2); dadd p q }"

definition scale_d :: "dbl \<Rightarrow> DVector2 \<Rightarrow> DVector2 option" where
  "scale_d s v =
     do { a \<leftarrow> dmul s (dx v); b \<leftarrow> dmul s (dy v); Some \<lparr>dx = a, dy = b\<rparr> }"

definition sub_d :: "DVector2 \<Rightarrow> DVector2 \<Rightarrow> DVector2 option" where
  "sub_d v1 v2 =
     do { a \<leftarrow> dsub (dx v1) (dx v2); b \<leftarrow> dsub (dy v1) (dy v2); Some \<lparr>dx = a, dy = b\<rparr> }"

text \<open>The double 2 is \<open>(2 ^ 52, - 51)\<close>.\<close>

definition reflect_d :: "DVector2 \<Rightarrow> DVector2 \<Rightarrow> DVector2 option" where
  "reflect_d incident normal =
     do { normalizedNormal \<leftarrow> normalize_d normal;
          k \<leftarrow> dot_d incident normalizedNormal;
          proj \<leftarrow> scale_d k normalizedNormal;
          twice \<leftarrow> scale_d (4503599627370496, - 51) proj;
          sub_d incident twice }"

section \<open>Normalisation\<close>

lemma len_dot: "len v = sqrt (dot v v)"
  by (simp add: len_def dot_def)

lemma len_nonneg: "0 \<le> len v"
  by (simp add: len_def)

lemma len_normalize: "0 < len v \<Longrightarrow> len (normalize v) = 1"
proof -
  assume h: "0 < len v"
  define l where "l = len v"
  have l: "0 < l" using h by (simp add: l_def)
  have sq: "l * l = x v * x v + y v * y v"
    by (simp add: l_def len_def)
  have n: "normalize v = \<lparr>x = x v / l, y = y v / l\<rparr>"
    using h by (simp add: normalize_def l_def)
  have "x v / l * (x v / l) + y v / l * (y v / l) = (x v * x v + y v * y v) / (l * l)"
    by (simp add: add_divide_distrib)
  also have "\<dots> = (l * l) / (l * l)" by (simp only: sq)
  also have "\<dots> = 1" using l by simp
  finally show ?thesis by (simp add: n len_def)
qed

lemma normalize_zero: "normalize \<lparr>x = 0, y = 0\<rparr> = \<lparr>x = 0, y = 0\<rparr>"
  by (simp add: normalize_def len_def)

lemma dot_normalize_self:
  "dot (normalize n) (normalize n) = 1 \<or> normalize n = \<lparr>x = 0, y = 0\<rparr>"
proof (cases "0 < len n")
  case True
  then have "len (normalize n) = 1" by (rule len_normalize)
  then have "sqrt (dot (normalize n) (normalize n)) = 1" by (simp add: len_dot)
  then show ?thesis by simp
next
  case False
  then show ?thesis by (simp add: normalize_def)
qed

text \<open>
  C9 (as amended). In exact real arithmetic, \<open>normalize v\<close> is the zero vector when
  the length of \<open>v\<close> is zero and \<open>v\<close> scaled by the inverse of its length otherwise
  (the function is total, so there is no failure); \<open>normalize\<close> is idempotent, and
  the zero vector is mapped to itself. On doubles the idempotence holds only up to
  rounding, as the counterexample below shows.
\<close>

theorem normalize_spec:
  "normalize v =
     (if sqrt (x v * x v + y v * y v) = 0 then \<lparr>x = 0, y = 0\<rparr>
      else \<lparr>x = 1 / sqrt (x v * x v + y v * y v) * x v,
            y = 1 / sqrt (x v * x v + y v * y v) * y v\<rparr>)
   \<and> normalize (normalize v) = normalize v
   \<and> normalize \<lparr>x = 0, y = 0\<rparr> = \<lparr>x = 0, y = 0\<rparr>"
proof (intro conjI)
  show "normalize v =
     (if sqrt (x v * x v + y v * y v) = 0 then \<lparr>x = 0, y = 0\<rparr>
      else \<lparr>x = 1 / sqrt (x v * x v + y v * y v) * x v,
            y = 1 / sqrt (x v * x v + y v * y v) * y v\<rparr>)"
    unfolding len_def [symmetric] using len_nonneg [of v] by (auto simp: normalize_def)
  show "normalize (normalize v) = normalize v"
  proof (cases "0 < len v")
    case True
    then have "len (normalize v) = 1" by (rule len_normalize)
    then show ?thesis by (simp add: normalize_def [of "normalize v"])
  next
    case False
    then show ?thesis by (simp add: normalize_def len_def)
  qed
  show "normalize \<lparr>x = 0, y = 0\<rparr> = \<lparr>x = 0, y = 0\<rparr>" by (rule normalize_zero)
qed

theorem normalize_spec_witness:
  "normalize \<lparr>x = 3, y = 4\<rparr> = \<lparr>x = 3 / 5, y = 4 / 5\<rparr>
   \<and> normalize (normalize \<lparr>x = 3, y = 4\<rparr>) = \<lparr>x = 3 / 5, y = 4 / 5\<rparr>"
proof -
  note h = normalize_spec [of "\<lparr>x = 3, y = 4\<rparr>"]
  have a: "normalize \<lparr>x = 3, y = 4\<rparr> = \<lparr>x = 3 / 5, y = 4 / 5\<rparr>"
    using h by simp
  have "normalize (normalize \<lparr>x = 3, y = 4\<rparr>) = normalize \<lparr>x = 3, y = 4\<rparr>"
    using h by blast
  with a show ?thesis by simp
qed

section \<open>The arithmetic of doubles\<close>

text \<open>
  The integer square root is the floor of the square root.
\<close>

lemma isqrt_bits_bounds:
  "0 \<le> r \<Longrightarrow> r * r \<le> n \<Longrightarrow> n < (r + 2 ^ k) * (r + 2 ^ k) \<Longrightarrow>
   isqrt_bits n k r * isqrt_bits n k r \<le> n
   \<and> n < (isqrt_bits n k r + 1) * (isqrt_bits n k r + 1)"
proof (induction k arbitrary: r)
  case 0
  then show ?case by simp
next
  case (Suc k)
  show ?case
  proof (cases "(r + 2 ^ k) * (r + 2 ^ k) \<le> n")
    case True
    have "n < (r + 2 ^ k + 2 ^ k) * (r + 2 ^ k + 2 ^ k)"
      using Suc.prems(3) by (simp add: algebra_simps)
    with True Suc.prems(1) Suc.IH [of "r + 2 ^ k"] show ?thesis
      by (simp add: Let_def)
  next
    case False
    with Suc.prems Suc.IH [of r] show ?thesis by (simp add: Let_def)
  qed
qed

lemma less_two_power_bits: "n < 2 ^ bits n"
proof (induction n rule: bits.induct)
  case (1 n)
  show ?case
  proof (cases "n \<le> 0")
    case True
    then show ?thesis by (simp add: bits.simps [of n])
  next
    case False
    with 1 have "n div 2 < 2 ^ bits (n div 2)" by simp
    then have "n < 2 * 2 ^ bits (n div 2)" by linarith
    with False show ?thesis by (simp add: bits.simps [of n])
  qed
qed

lemma isqrt_correct:
  "0 \<le> n \<Longrightarrow> isqrt n * isqrt n \<le> n \<and> n < (isqrt n + 1) * (isqrt n + 1)"
proof -
  assume n: "0 \<le> n"
  have p: "(1::int) \<le> 2 ^ bits n" by simp
  have "n < 2 ^ bits n" by (rule less_two_power_bits)
  also have "\<dots> \<le> 2 ^ bits n * 2 ^ bits n"
    using mult_left_mono [OF p, of "2 ^ bits n"] by simp
  finally have "n < (0 + 2 ^ bits n) * (0 + 2 ^ bits n)" by simp
  with n isqrt_bits_bounds [of 0 n "bits n"] show ?thesis
    by (simp add: isqrt_def)
qed

text \<open>
  A positive integer \<open>n\<close> has exactly \<open>bits n\<close> binary digits, and \<open>round_even\<close>
  rounds to a nearest integer, at a tie to the even one.
\<close>

lemma two_power_bits_le: "0 < n \<Longrightarrow> 2 ^ (bits n - 1) \<le> n"
proof (induction n rule: bits.induct)
  case (1 n)
  show ?case
  proof (cases "n div 2 = 0")
    case True
    with "1.prems" have "n = 1" by linarith
    then show ?thesis by (simp add: bits.simps [of 1] bits.simps [of 0])
  next
    case False
    with "1.prems" have p: "0 < n div 2" by linarith
    with "1.IH" "1.prems" have ih: "2 ^ (bits (n div 2) - 1) \<le> n div 2" by simp
    from p have "0 < bits (n div 2)" by (simp add: bits.simps [of "n div 2"])
    then have "(2::int) ^ bits (n div 2) = 2 * 2 ^ (bits (n div 2) - 1)"
      by (cases "bits (n div 2)") simp_all
    with ih have "(2::int) ^ bits (n div 2) \<le> 2 * (n div 2)" by simp
    also have "\<dots> \<le> n" by linarith
    finally show ?thesis using "1.prems" by (simp add: bits.simps [of n])
  qed
qed

lemma round_even_nearest:
  assumes "0 < k"
  shows "\<bar>round_even m k * 2 ^ k - m\<bar> * 2 \<le> 2 ^ k"
    and "\<bar>round_even m k * 2 ^ k - m\<bar> * 2 = 2 ^ k \<Longrightarrow> even (round_even m k)"
proof -
  define q where "q = m div 2 ^ k"
  define r where "r = m mod 2 ^ k"
  define h :: int where "h = 2 ^ (k - 1)"
  have m: "m = q * 2 ^ k + r"
    unfolding q_def r_def by (rule div_mult_mod_eq [symmetric])
  have r: "0 \<le> r" "r < 2 ^ k" by (simp_all add: r_def)
  have k: "(2::int) ^ k = 2 * h" using assms by (cases k) (simp_all add: h_def)
  have e: "round_even m k = (if r < h then q else if r > h then q + 1
                             else if even q then q else q + 1)"
    by (simp add: round_even_def Let_def q_def r_def h_def)
  define d where "d = round_even m k - q"
  have d: "d = (if r < h then 0 else if r > h then 1 else if even q then 0 else 1)"
    by (simp add: d_def e)
  have "round_even m k * 2 ^ k - m = d * (2 * h) - r"
    by (simp add: m k d_def algebra_simps)
  then have v: "round_even m k * (2 * h) - m = d * (2 * h) - r"
    by (simp only: k)
  have "\<bar>d * (2 * h) - r\<bar> * 2 \<le> 2 * h"
    unfolding d using r k by (auto split: if_splits)
  then show "\<bar>round_even m k * 2 ^ k - m\<bar> * 2 \<le> 2 ^ k"
    by (simp only: v k)
  show "even (round_even m k)" if t: "\<bar>round_even m k * 2 ^ k - m\<bar> * 2 = 2 ^ k"
  proof -
    from t have "\<bar>d * (2 * h) - r\<bar> * 2 = 2 * h" by (simp only: v k)
    then have "r = h" unfolding d using r k by (auto split: if_splits)
    then show ?thesis by (simp add: e)
  qed
qed

text \<open>
  Some known values: \<open>0.1 + 0.2\<close> is \<open>0.30000000000000004\<close>, \<open>1 / 3\<close> is
  \<open>0.3333333333333333\<close>, the square root of 2 is \<open>1.4142135623730951\<close> and its
  square is \<open>2.0000000000000004\<close>; \<open>1 - 1\<close> is zero, and \<open>1 / 0\<close> is not a finite
  double.
\<close>

lemma double_examples:
  "dadd (7205759403792794, - 56) (7205759403792794, - 55) = Some (5404319552844596, - 54)"
  "ddiv (4503599627370496, - 52) (6755399441055744, - 51) = Some (6004799503160661, - 54)"
  "dsqrt (4503599627370496, - 51) = Some (6369051672525773, - 52)"
  "dmul (6369051672525773, - 52) (6369051672525773, - 52) = Some (4503599627370497, - 51)"
  "dsub (4503599627370496, - 52) (4503599627370496, - 52) = Some (0, 0)"
  "ddiv (4503599627370496, - 52) (0, 0) = None"
  by code_simp+

text \<open>
  The claim C9 as stated fails on doubles: \<open>normalize\<close> maps \<open>(1, 1)\<close> to
  \<open>(0.7071067811865475, 0.7071067811865475)\<close>, which is \<open>6369051672525772 / 2 ^ 53\<close>
  in both components, and maps that vector to
  \<open>(0.7071067811865476, 0.7071067811865476)\<close>, which is \<open>6369051672525773 / 2 ^ 53\<close>.
\<close>

theorem normalize_double_counterexample:
  "normalize_d \<lparr>dx = (4503599627370496, - 52), dy = (4503599627370496, - 52)\<rparr>
     = Some \<lparr>dx = (6369051672525772, - 53), dy = (6369051672525772, - 53)\<rparr>
   \<and> normalize_d \<lparr>dx = (6369051672525772, - 53), dy = (6369051672525772, - 53)\<rparr>
     = Some \<lparr>dx = (6369051672525773, - 53), dy = (6369051672525773, - 53)\<rparr>
   \<and> dval (4503599627370496, - 52) = 1
   \<and> dval (6369051672525772, - 53) \<noteq> dval (6369051672525773, - 53)"
proof (intro conjI)
  show "normalize_d \<lparr>dx = (4503599627370496, - 52), dy = (4503599627370496, - 52)\<rparr>
     = Some \<lparr>dx = (6369051672525772, - 53), dy = (6369051672525772, - 53)\<rparr>"
    by code_simp
  show "normalize_d \<lparr>dx = (6369051672525772, - 53), dy = (6369051672525772, - 53)\<rparr>
     = Some \<lparr>dx = (6369051672525773, - 53), dy = (6369051672525773, - 53)\<rparr>"
    by code_simp
  show "dval (4503599627370496, - 52) = 1"
    by (simp add: dval_def)
  show "dval (6369051672525772, - 53) \<noteq> dval (6369051672525773, - 53)"
    by (simp add: dval_def)
qed

section \<open>Reflection\<close>

lemma reflect_formula:
  "reflect d n = sub d (scale (2 * dot d (normalize n)) (normalize n))"
  by (simp add: reflect_def Let_def sub_def scale_def)

lemma dot_reflect: "dot (reflect d n) (reflect d n) = dot d d"
proof -
  define m where "m = normalize n"
  define k where "k = dot d m"
  have r: "reflect d n = sub d (scale (2 * k) m)"
    by (simp add: reflect_formula m_def k_def)
  have e: "dot (sub d (scale (2 * k) m)) (sub d (scale (2 * k) m))
           = dot d d - 4 * k * dot d m + 4 * k * k * dot m m"
    by (simp add: dot_def sub_def scale_def algebra_simps)
  from dot_normalize_self [of n] have "dot m m = 1 \<or> m = \<lparr>x = 0, y = 0\<rparr>"
    by (simp add: m_def)
  then show ?thesis
  proof
    assume "dot m m = 1"
    with e r show ?thesis by (simp add: k_def)
  next
    assume z: "m = \<lparr>x = 0, y = 0\<rparr>"
    then have "k = 0" by (simp add: k_def dot_def)
    with e r show ?thesis by simp
  qed
qed

text \<open>
  C8 (as amended). \<open>reflect d n\<close> is \<open>d - 2 * dot d n' * n'\<close> with
  \<open>n' = normalize n\<close>, component by component, for every \<open>d\<close> and \<open>n\<close> (the function
  is total); in exact real arithmetic, for unit \<open>d\<close> and unit \<open>n\<close> the result has the
  length of \<open>d\<close>. On doubles the two lengths agree only up to rounding, as the
  counterexample below shows.
\<close>

theorem reflect_spec:
  "reflect d n =
     \<lparr>x = x d - 2 * ((x d * x (normalize n) + y d * y (normalize n)) * x (normalize n)),
      y = y d - 2 * ((x d * x (normalize n) + y d * y (normalize n)) * y (normalize n))\<rparr>
   \<and> (sqrt (x d * x d + y d * y d) = 1 \<and> sqrt (x n * x n + y n * y n) = 1 \<longrightarrow>
        sqrt (x (reflect d n) * x (reflect d n) + y (reflect d n) * y (reflect d n))
          = sqrt (x d * x d + y d * y d))"
proof (intro conjI impI)
  show "reflect d n =
     \<lparr>x = x d - 2 * ((x d * x (normalize n) + y d * y (normalize n)) * x (normalize n)),
      y = y d - 2 * ((x d * x (normalize n) + y d * y (normalize n)) * y (normalize n))\<rparr>"
    by (simp add: reflect_def Let_def sub_def scale_def dot_def)
  have "len (reflect d n) = len d"
    by (simp only: len_dot dot_reflect)
  then show "sqrt (x (reflect d n) * x (reflect d n) + y (reflect d n) * y (reflect d n))
          = sqrt (x d * x d + y d * y d)"
    by (simp only: len_def)
qed

theorem reflect_spec_witness:
  "sqrt (3 / 5 * (3 / 5) + 4 / 5 * (4 / 5)) = (1::real) \<and> sqrt (0 * 0 + 1 * 1) = (1::real)
   \<and> reflect \<lparr>x = 3 / 5, y = 4 / 5\<rparr> \<lparr>x = 0, y = 1\<rparr> = \<lparr>x = 3 / 5, y = - (4 / 5)\<rparr>
   \<and> sqrt (3 / 5 * (3 / 5) + - (4 / 5) * - (4 / 5)) = (1::real)
   \<and> reflect \<lparr>x = 1, y = 2\<rparr> \<lparr>x = 3, y = 0\<rparr> = \<lparr>x = - 1, y = 2\<rparr>"
proof -
  let ?d = "\<lparr>x = 3 / 5, y = 4 / 5\<rparr>" and ?n = "\<lparr>x = 0, y = 1\<rparr>"
  have n1: "normalize ?n = \<lparr>x = 0, y = 1\<rparr>"
    by (simp add: normalize_def len_def)
  have n2: "normalize \<lparr>x = 3, y = 0\<rparr> = \<lparr>x = 1, y = 0\<rparr>"
    by (simp add: normalize_def len_def)
  have a: "sqrt (3 / 5 * (3 / 5) + 4 / 5 * (4 / 5)) = (1::real)"
    using real_sqrt_unique [of 1 "3 / 5 * (3 / 5) + 4 / 5 * (4 / 5)"] by simp
  have b: "sqrt (0 * 0 + 1 * 1) = (1::real)" by simp
  have a': "sqrt (x ?d * x ?d + y ?d * y ?d) = 1" using a by simp
  have b': "sqrt (x ?n * x ?n + y ?n * y ?n) = 1" by simp
  note h = reflect_spec [of ?d ?n]
  note k = reflect_spec [of "\<lparr>x = 1, y = 2\<rparr>" "\<lparr>x = 3, y = 0\<rparr>"]
  have r: "reflect ?d ?n = \<lparr>x = 3 / 5, y = - (4 / 5)\<rparr>"
    using h [THEN conjunct1] by (simp add: n1)
  from h [THEN conjunct2] a' b'
  have "sqrt (x (reflect ?d ?n) * x (reflect ?d ?n) + y (reflect ?d ?n) * y (reflect ?d ?n))
          = sqrt (x ?d * x ?d + y ?d * y ?d)"
    by blast
  then have c: "sqrt (3 / 5 * (3 / 5) + - (4 / 5) * - (4 / 5)) = (1::real)"
    unfolding r using a by simp
  have s: "reflect \<lparr>x = 1, y = 2\<rparr> \<lparr>x = 3, y = 0\<rparr> = \<lparr>x = - 1, y = 2\<rparr>"
    using k [THEN conjunct1] by (simp add: n2)
  from a b r c s show ?thesis by blast
qed

text \<open>
  The claim C8 as stated fails on doubles: for \<open>d = (0.6, 0.8)\<close> and
  \<open>n = (5 / 13, 12 / 13)\<close>, each rounded to a double, the program computes the length
  1 for both, and for \<open>reflect d n\<close> the length \<open>1.0000000000000002\<close>, which is
  \<open>1 + 1 / 2 ^ 52\<close>.
\<close>

theorem reflect_double_counterexample:
  "len_d \<lparr>dx = (5404319552844595, - 53), dy = (7205759403792794, - 53)\<rparr>
     = Some (4503599627370496, - 52)
   \<and> len_d \<lparr>dx = (6928614811339225, - 54), dy = (8314337773607070, - 53)\<rparr>
     = Some (4503599627370496, - 52)
   \<and> reflect_d \<lparr>dx = (5404319552844595, - 53), dy = (7205759403792794, - 53)\<rparr>
        \<lparr>dx = (6928614811339225, - 54), dy = (8314337773607070, - 53)\<rparr>
     = Some \<lparr>dx = (- 5244428441813696, - 55), dy = (- 8911264588122452, - 53)\<rparr>
   \<and> len_d \<lparr>dx = (- 5244428441813696, - 55), dy = (- 8911264588122452, - 53)\<rparr>
     = Some (4503599627370497, - 52)
   \<and> dval (4503599627370496, - 52) = 1
   \<and> dval (4503599627370497, - 52) = 1 + 1 / 2 ^ 52"
proof (intro conjI)
  show "len_d \<lparr>dx = (5404319552844595, - 53), dy = (7205759403792794, - 53)\<rparr>
     = Some (4503599627370496, - 52)"
    by code_simp
  show "len_d \<lparr>dx = (6928614811339225, - 54), dy = (8314337773607070, - 53)\<rparr>
     = Some (4503599627370496, - 52)"
    by code_simp
  show "reflect_d \<lparr>dx = (5404319552844595, - 53), dy = (7205759403792794, - 53)\<rparr>
        \<lparr>dx = (6928614811339225, - 54), dy = (8314337773607070, - 53)\<rparr>
     = Some \<lparr>dx = (- 5244428441813696, - 55), dy = (- 8911264588122452, - 53)\<rparr>"
    by code_simp
  show "len_d \<lparr>dx = (- 5244428441813696, - 55), dy = (- 8911264588122452, - 53)\<rparr>
     = Some (4503599627370497, - 52)"
    by code_simp
  show "dval (4503599627370496, - 52) = 1"
    by (simp add: dval_def)
  show "dval (4503599627370497, - 52) = 1 + 1 / 2 ^ 52"
    by (simp add: dval_def)
qed

section \<open>Refraction\<close>

text \<open>
  C1. \<open>refract d n eta\<close> is \<open>None\<close> exactly when \<open>cosTheta\<close>, the negated dot product
  of the normalised arguments, is negative, or \<open>sin2Phi = eta\<^sup>2 * (1 - cosTheta\<^sup>2)\<close>
  exceeds 1; in every other case it is
  \<open>eta * d' + (- eta * cosTheta + cosPhi) * n'\<close> with \<open>cosPhi = sqrt (1 - sin2Phi)\<close>.
  The model is total: no input makes it fail.
\<close>

theorem refract_spec:
  "refract d n eta =
     (let cosTheta = - dot (normalize d) (normalize n);
          sin2Phi = eta\<^sup>2 * (1 - cosTheta\<^sup>2);
          cosPhi = sqrt (1 - sin2Phi)
      in if cosTheta < 0 \<or> sin2Phi > 1 then None
         else Some (add (scale eta (normalize d))
                        (scale (- eta * cosTheta + cosPhi) (normalize n))))"
  by (simp add: refract_def Let_def power2_eq_square)

theorem refract_spec_witness:
  "refract \<lparr>x = 3, y = 4\<rparr> \<lparr>x = - 1, y = 0\<rparr> (1 / 2)
     = Some \<lparr>x = 3 / 10 - (sqrt 21 / 5 - 3 / 10), y = 2 / 5\<rparr>
   \<and> refract \<lparr>x = 1, y = 0\<rparr> \<lparr>x = 1, y = 0\<rparr> (1 / 2) = None
   \<and> refract \<lparr>x = 3, y = 4\<rparr> \<lparr>x = - 1, y = 0\<rparr> 2 = None"
proof -
  have n1: "normalize \<lparr>x = 3, y = 4\<rparr> = \<lparr>x = 3 / 5, y = 4 / 5\<rparr>"
    by (simp add: normalize_def len_def)
  have n2: "normalize \<lparr>x = - 1, y = 0\<rparr> = \<lparr>x = - 1, y = 0\<rparr>"
    by (simp add: normalize_def len_def)
  have n3: "normalize \<lparr>x = 1, y = 0\<rparr> = \<lparr>x = 1, y = 0\<rparr>"
    by (simp add: normalize_def len_def)
  have s: "sqrt (21 / 25) = sqrt 21 / 5"
    by (simp add: real_sqrt_divide)
  have a: "refract \<lparr>x = 3, y = 4\<rparr> \<lparr>x = - 1, y = 0\<rparr> (1 / 2)
           = Some \<lparr>x = 3 / 10 - (sqrt 21 / 5 - 3 / 10), y = 2 / 5\<rparr>"
    using refract_spec [of "\<lparr>x = 3, y = 4\<rparr>" "\<lparr>x = - 1, y = 0\<rparr>" "1 / 2"]
    by (simp add: n1 n2 dot_def add_def scale_def power2_eq_square s)
  have b: "refract \<lparr>x = 1, y = 0\<rparr> \<lparr>x = 1, y = 0\<rparr> (1 / 2) = None"
    using refract_spec [of "\<lparr>x = 1, y = 0\<rparr>" "\<lparr>x = 1, y = 0\<rparr>" "1 / 2"]
    by (simp add: n3 dot_def)
  have c: "refract \<lparr>x = 3, y = 4\<rparr> \<lparr>x = - 1, y = 0\<rparr> 2 = None"
    using refract_spec [of "\<lparr>x = 3, y = 4\<rparr>" "\<lparr>x = - 1, y = 0\<rparr>" 2]
    by (simp add: n1 n2 dot_def power2_eq_square)
  from a b c show ?thesis by simp
qed

section \<open>The bounce loop\<close>

lemma trace_loop_append:
  "maxBounces - b = k \<Longrightarrow>
   trace_loop b origin dir trav ci objs segs = segs @ trace_loop b origin dir trav ci objs []"
proof (induction k arbitrary: b origin dir trav segs)
  case 0
  then have "\<not> b < maxBounces" by simp
  then show ?case by (simp add: trace_loop.simps [of b])
next
  case (Suc k)
  then have b: "b < maxBounces" and k: "maxBounces - (b + 1) = k" by simp_all
  show ?case
  proof (cases "find_hit origin dir objs")
    case None
    then show ?thesis using b by (simp add: trace_loop.simps [of b] Let_def)
  next
    case (Some h)
    let ?s = "\<lparr>seg_start = origin, seg_end = add origin (scale (minT h) dir),
               color = index COLORS ci\<rparr>"
    note ih1 = Suc.IH [OF k, of "new_origin h" "new_dir dir ci h" "trav + minT h" "segs @ [?s]"]
    note ih2 = Suc.IH [OF k, of "new_origin h" "new_dir dir ci h" "trav + minT h" "[?s]"]
    show ?thesis
      using b Some ih1 ih2 by (simp add: trace_loop.simps [of b] Let_def)
  qed
qed

lemma trace_loop_length:
  "maxBounces - b = k \<Longrightarrow> length (trace_loop b origin dir trav ci objs []) \<le> k"
proof (induction k arbitrary: b origin dir trav)
  case 0
  then have "\<not> b < maxBounces" by simp
  then show ?case by (simp add: trace_loop.simps [of b])
next
  case (Suc k)
  then have b: "b < maxBounces" and k: "maxBounces - (b + 1) = k" by simp_all
  show ?case
  proof (cases "find_hit origin dir objs")
    case None
    then show ?thesis using b by (simp add: trace_loop.simps [of b] Let_def)
  next
    case (Some h)
    let ?s = "\<lparr>seg_start = origin, seg_end = add origin (scale (minT h) dir),
               color = index COLORS ci\<rparr>"
    note ih = Suc.IH [OF k, of "new_origin h" "new_dir dir ci h" "trav + minT h"]
    note ap = trace_loop_append [OF k, of "new_origin h" "new_dir dir ci h" "trav + minT h" ci objs "[?s]"]
    show ?thesis
      using b Some ih ap by (simp add: trace_loop.simps [of b] Let_def)
  qed
qed

lemma trace_loop_first:
  "b < maxBounces \<Longrightarrow> trav < maxLength \<Longrightarrow>
   \<exists>s rest. trace_loop b origin dir trav ci objs [] = s # rest \<and> seg_start s = origin"
proof (cases "find_hit origin dir objs")
  case None
  assume "b < maxBounces" "trav < maxLength"
  with None show ?thesis by (simp add: trace_loop.simps [of b] Let_def)
next
  case (Some h)
  assume b: "b < maxBounces" "trav < maxLength"
  let ?s = "\<lparr>seg_start = origin, seg_end = add origin (scale (minT h) dir),
             color = index COLORS ci\<rparr>"
  have "trace_loop (b + 1) (new_origin h) (new_dir dir ci h) (trav + minT h) ci objs [?s]
        = [?s] @ trace_loop (b + 1) (new_origin h) (new_dir dir ci h) (trav + minT h) ci objs []"
    by (rule trace_loop_append [OF refl])
  with b Some show ?thesis by (simp add: trace_loop.simps [of b] Let_def)
qed

text \<open>
  C10. For every initial origin, initial direction, wavelength index and obstacle
  list, \<open>traceRay\<close> returns a non-empty list whose first segment starts at the
  initial origin: the first iteration emits a segment whether or not it finds a hit.
\<close>

theorem traceRay_first_segment:
  "traceRay initialOrigin initialDir colorIndex objects \<noteq> []
   \<and> seg_start (hd (traceRay initialOrigin initialDir colorIndex objects)) = initialOrigin"
proof -
  have "\<exists>s rest. trace_loop 0 initialOrigin (normalize initialDir) 0 colorIndex objects [] = s # rest
          \<and> seg_start s = initialOrigin"
    by (rule trace_loop_first) (simp_all add: maxBounces_def maxLength_def)
  then show ?thesis by (auto simp: traceRay_def)
qed

section \<open>A ray and the mirrors \<open>mirror_a\<close> and \<open>mirror_b\<close>\<close>

lemma normalize_units:
  "normalize \<lparr>x = 1, y = 0\<rparr> = \<lparr>x = 1, y = 0\<rparr>"
  "normalize \<lparr>x = - 1, y = 0\<rparr> = \<lparr>x = - 1, y = 0\<rparr>"
  by (simp_all add: normalize_def len_def)

lemma segment_a:
  "getMirrorSegment (mirror_a d) =
     \<lparr>seg_p1 = \<lparr>x = - d, y = 20\<rparr>, seg_p2 = \<lparr>x = - d, y = 60\<rparr>, seg_normal = \<lparr>x = - 1, y = 0\<rparr>\<rparr>"
  by (simp add: getMirrorSegment_def mirror_a_def Let_def add_def rotate_def)

lemma is_mirror_ab: "is_mirror (mirror_a d)" "is_mirror (mirror_b d)"
  "\<not> is_prism (mirror_a d)" "\<not> is_prism (mirror_b d)"
  by (simp_all add: is_mirror_def is_prism_def mirror_a_def mirror_b_def)

lemma mirror_a_forth:
  assumes "1 / 100 < d"
  shows "mirror_step \<lparr>x = 0, y = 0\<rparr> \<lparr>x = 1, y = 0\<rparr> None (mirror_a d) =
         Some \<lparr>minT = d, hitNormal = \<lparr>x = - 1, y = 0\<rparr>, hitPoint = \<lparr>x = d, y = 0\<rparr>,
               hitType = MirrorHit\<rparr>"
  using assms
  by (simp add: mirror_step_def segment_a lineIntersect_def Let_def lt_minT_def dot_def
      add_def scale_def no_intersection_def)

lemma mirror_a_back:
  "mirror_step \<lparr>x = d - 1 / 10, y = 0\<rparr> \<lparr>x = - 1, y = 0\<rparr> best (mirror_a d) = best"
  by (simp add: mirror_step_def segment_a lineIntersect_def Let_def dot_def
      no_intersection_def split: option.splits)

lemma bounce_forth:
  "new_dir \<lparr>x = 1, y = 0\<rparr> ci \<lparr>minT = d, hitNormal = \<lparr>x = - 1, y = 0\<rparr>, hitPoint = \<lparr>x = d, y = 0\<rparr>,
           hitType = MirrorHit\<rparr> = \<lparr>x = - 1, y = 0\<rparr>"
  "new_origin \<lparr>minT = d, hitNormal = \<lparr>x = - 1, y = 0\<rparr>, hitPoint = \<lparr>x = d, y = 0\<rparr>,
           hitType = MirrorHit\<rparr> = \<lparr>x = d - 1 / 10, y = 0\<rparr>"
  by (simp_all add: new_dir_def new_origin_def normalize_units reflect_def Let_def dot_def
      scale_def sub_def add_def)

section \<open>One iteration of the loop\<close>

lemma trace_loop_hit:
  "b < maxBounces \<Longrightarrow> find_hit origin dir objs = Some h \<Longrightarrow>
   trace_loop b origin dir trav ci objs segs =
     (if trav + minT h > maxLength
      then segs @ [\<lparr>seg_start = origin, seg_end = add origin (scale (minT h) dir),
                    color = index COLORS ci\<rparr>]
      else trace_loop (b + 1) (new_origin h) (new_dir dir ci h) (trav + minT h) ci objs
             (segs @ [\<lparr>seg_start = origin, seg_end = add origin (scale (minT h) dir),
                       color = index COLORS ci\<rparr>]))"
  by (simp add: trace_loop.simps [of b] Let_def)

lemma trace_loop_no_hit:
  "b < maxBounces \<Longrightarrow> find_hit origin dir objs = None \<Longrightarrow>
   trace_loop b origin dir trav ci objs segs =
     (if maxLength - trav > 0
      then segs @ [\<lparr>seg_start = origin, seg_end = add origin (scale (maxLength - trav) dir),
                    color = index COLORS ci\<rparr>]
      else segs)"
  by (simp add: trace_loop.simps [of b] Let_def)

lemma trace_loop_done:
  "\<not> b < maxBounces \<Longrightarrow> trace_loop b origin dir trav ci objs segs = segs"
  by (simp add: trace_loop.simps [of b])

section \<open>Ray against segment\<close>

text \<open>
  C4. The code departs from the claim. The ray from \<open>(0, 0)\<close> along \<open>(1, 0)\<close> meets
  the segment from \<open>(5, - 1)\<close> to \<open>(5, 1)\<close> at its midpoint, with \<open>t = 5\<close> and
  \<open>u = 1 / 2\<close>, but \<open>lineIntersect\<close> returns no intersection; for the segment from
  \<open>(- 5, 1)\<close> to \<open>(- 5, 3)\<close>, which the ray does not meet, it returns the point
  \<open>(5, 0)\<close>; and a trace goes straight through a mirror that faces the light. In
  general the \<open>t\<close> and \<open>u\<close> of a returned intersection solve the system of the ray
  and the segment with both signs inverted: \<open>origin - t * dir = p1 - u * (p2 - p1)\<close>,
  while the returned point is \<open>origin + t * dir\<close>.
\<close>

theorem lineIntersect_negated:
  "lineIntersect \<lparr>x = 0, y = 0\<rparr> \<lparr>x = 1, y = 0\<rparr> \<lparr>x = 5, y = - 1\<rparr> \<lparr>x = 5, y = 1\<rparr>
     = no_intersection
   \<and> inter_point no_intersection = None
   \<and> add \<lparr>x = 0, y = 0\<rparr> (scale 5 \<lparr>x = 1, y = 0\<rparr>)
     = add \<lparr>x = 5, y = - 1\<rparr> (scale (1 / 2) (sub \<lparr>x = 5, y = 1\<rparr> \<lparr>x = 5, y = - 1\<rparr>))
   \<and> lineIntersect \<lparr>x = 0, y = 0\<rparr> \<lparr>x = 1, y = 0\<rparr> \<lparr>x = - 5, y = 1\<rparr> \<lparr>x = - 5, y = 3\<rparr>
     = \<lparr>inter_point = Some \<lparr>x = 5, y = 0\<rparr>, inter_t = 5, inter_u = 1 / 2\<rparr>
   \<and> getMirrorSegment mirror_ahead =
       \<lparr>seg_p1 = \<lparr>x = 300, y = 280\<rparr>, seg_p2 = \<lparr>x = 300, y = 320\<rparr>,
        seg_normal = \<lparr>x = - 1, y = 0\<rparr>\<rparr>
   \<and> traceRay \<lparr>x = 100, y = 300\<rparr> \<lparr>x = 1, y = 0\<rparr> 0 [mirror_ahead]
     = [\<lparr>seg_start = \<lparr>x = 100, y = 300\<rparr>, seg_end = \<lparr>x = 1100, y = 300\<rparr>,
         color = Some ''red''\<rparr>]
   \<and> (inter_point (lineIntersect origin dir q1 q2) = Some p \<longrightarrow>
        (let t = inter_t (lineIntersect origin dir q1 q2);
             u = inter_u (lineIntersect origin dir q1 q2)
         in p = \<lparr>x = x origin + t * x dir, y = y origin + t * y dir\<rparr>
            \<and> x origin - t * x dir = x q1 - u * (x q2 - x q1)
            \<and> y origin - t * y dir = y q1 - u * (y q2 - y q1)
            \<and> 0 \<le> t \<and> 0 \<le> u \<and> u \<le> 1))"
proof (intro conjI impI)
  show "lineIntersect \<lparr>x = 0, y = 0\<rparr> \<lparr>x = 1, y = 0\<rparr> \<lparr>x = 5, y = - 1\<rparr> \<lparr>x = 5, y = 1\<rparr>
     = no_intersection"
    by (simp add: lineIntersect_def Let_def)
  show "inter_point no_intersection = None"
    by (simp add: no_intersection_def)
  show "add \<lparr>x = 0, y = 0\<rparr> (scale 5 \<lparr>x = 1, y = 0\<rparr>)
     = add \<lparr>x = 5, y = - 1\<rparr> (scale (1 / 2) (sub \<lparr>x = 5, y = 1\<rparr> \<lparr>x = 5, y = - 1\<rparr>))"
    by (simp add: add_def scale_def sub_def)
  show "lineIntersect \<lparr>x = 0, y = 0\<rparr> \<lparr>x = 1, y = 0\<rparr> \<lparr>x = - 5, y = 1\<rparr> \<lparr>x = - 5, y = 3\<rparr>
     = \<lparr>inter_point = Some \<lparr>x = 5, y = 0\<rparr>, inter_t = 5, inter_u = 1 / 2\<rparr>"
    by (simp add: lineIntersect_def Let_def add_def scale_def)
  have s: "getMirrorSegment mirror_ahead =
       \<lparr>seg_p1 = \<lparr>x = 300, y = 280\<rparr>, seg_p2 = \<lparr>x = 300, y = 320\<rparr>,
        seg_normal = \<lparr>x = - 1, y = 0\<rparr>\<rparr>"
    by (simp add: getMirrorSegment_def mirror_ahead_def Let_def add_def rotate_def)
  then show "getMirrorSegment mirror_ahead =
       \<lparr>seg_p1 = \<lparr>x = 300, y = 280\<rparr>, seg_p2 = \<lparr>x = 300, y = 320\<rparr>,
        seg_normal = \<lparr>x = - 1, y = 0\<rparr>\<rparr>" .
  have m: "is_mirror mirror_ahead" "\<not> is_prism mirror_ahead"
    by (simp_all add: is_mirror_def is_prism_def mirror_ahead_def)
  have f: "find_hit \<lparr>x = 100, y = 300\<rparr> \<lparr>x = 1, y = 0\<rparr> [mirror_ahead] = None"
    by (simp add: find_hit_def m mirror_step_def s lineIntersect_def Let_def no_intersection_def)
  show "traceRay \<lparr>x = 100, y = 300\<rparr> \<lparr>x = 1, y = 0\<rparr> 0 [mirror_ahead]
     = [\<lparr>seg_start = \<lparr>x = 100, y = 300\<rparr>, seg_end = \<lparr>x = 1100, y = 300\<rparr>,
         color = Some ''red''\<rparr>]"
    by (simp add: traceRay_def normalize_units trace_loop_no_hit f maxBounces_def maxLength_def
        add_def scale_def index_def COLORS_def)
next
  assume h: "inter_point (lineIntersect origin dir q1 q2) = Some p"
  define D where "D = x dir * (y q2 - y q1) - y dir * (x q2 - x q1)"
  define t where "t = ((x origin - x q1) * (y q2 - y q1) - (y origin - y q1) * (x q2 - x q1)) / D"
  define u where "u = - (x dir * (y origin - y q1) - y dir * (x origin - x q1)) / D"
  have unf: "lineIntersect origin dir q1 q2 =
      (if \<bar>D\<bar> < 1 / 1000000 then no_intersection
       else if 0 \<le> t \<and> 0 \<le> u \<and> u \<le> 1
            then \<lparr>inter_point = Some (add origin (scale t dir)), inter_t = t, inter_u = u\<rparr>
            else no_intersection)"
    by (simp add: lineIntersect_def Let_def D_def t_def u_def)
  from h unf have D: "\<not> \<bar>D\<bar> < 1 / 1000000" and c: "0 \<le> t \<and> 0 \<le> u \<and> u \<le> 1"
    by (auto simp: no_intersection_def split: if_splits)
  with unf have r: "lineIntersect origin dir q1 q2 =
      \<lparr>inter_point = Some (add origin (scale t dir)), inter_t = t, inter_u = u\<rparr>"
    by simp
  from D have D0: "D \<noteq> 0" by auto
  have tD: "t * D = (x origin - x q1) * (y q2 - y q1) - (y origin - y q1) * (x q2 - x q1)"
    using D0 by (simp add: t_def)
  have uD: "u * D = - (x dir * (y origin - y q1) - y dir * (x origin - x q1))"
    using D0 by (simp add: u_def)
  have "(t * D) * x dir - (u * D) * (x q2 - x q1) = (x origin - x q1) * D"
    unfolding tD uD by (simp add: D_def algebra_simps)
  then have "(t * x dir - u * (x q2 - x q1)) * D = (x origin - x q1) * D"
    by (simp add: algebra_simps)
  with D0 have ex: "t * x dir - u * (x q2 - x q1) = x origin - x q1" by simp
  have "(t * D) * y dir - (u * D) * (y q2 - y q1) = (y origin - y q1) * D"
    unfolding tD uD by (simp add: D_def algebra_simps)
  then have "(t * y dir - u * (y q2 - y q1)) * D = (y origin - y q1) * D"
    by (simp add: algebra_simps)
  with D0 have ey: "t * y dir - u * (y q2 - y q1) = y origin - y q1" by simp
  from h r have p: "p = \<lparr>x = x origin + t * x dir, y = y origin + t * y dir\<rparr>"
    by (simp add: add_def scale_def)
  from p ex ey c show "let t = inter_t (lineIntersect origin dir q1 q2);
             u = inter_u (lineIntersect origin dir q1 q2)
         in p = \<lparr>x = x origin + t * x dir, y = y origin + t * y dir\<rparr>
            \<and> x origin - t * x dir = x q1 - u * (x q2 - x q1)
            \<and> y origin - t * y dir = y q1 - u * (y q2 - y q1)
            \<and> 0 \<le> t \<and> 0 \<le> u \<and> u \<le> 1"
    unfolding r Let_def by (simp add: algebra_simps)
qed

theorem lineIntersect_negated_witness:
  "inter_point (lineIntersect \<lparr>x = 0, y = 0\<rparr> \<lparr>x = 1, y = 0\<rparr> \<lparr>x = - 5, y = 1\<rparr> \<lparr>x = - 5, y = 3\<rparr>)
     = Some \<lparr>x = 5, y = 0\<rparr>
   \<and> (0::real) - 5 * 1 = - 5 - 1 / 2 * (- 5 - - 5)
   \<and> (0::real) - 5 * 0 = 1 - 1 / 2 * (3 - 1)"
proof -
  let ?r = "lineIntersect \<lparr>x = 0, y = 0\<rparr> \<lparr>x = 1, y = 0\<rparr> \<lparr>x = - 5, y = 1\<rparr> \<lparr>x = - 5, y = 3\<rparr>"
  note h = lineIntersect_negated [of "\<lparr>x = 0, y = 0\<rparr>" "\<lparr>x = 1, y = 0\<rparr>"
      "\<lparr>x = - 5, y = 1\<rparr>" "\<lparr>x = - 5, y = 3\<rparr>" "\<lparr>x = 5, y = 0\<rparr>"]
  from h have v: "?r = \<lparr>inter_point = Some \<lparr>x = 5, y = 0\<rparr>, inter_t = 5, inter_u = 1 / 2\<rparr>"
    by blast
  then have p: "inter_point ?r = Some \<lparr>x = 5, y = 0\<rparr>" by simp
  with h have "let t = inter_t ?r; u = inter_u ?r
         in \<lparr>x = 5, y = 0\<rparr> = \<lparr>x = x \<lparr>x = 0, y = 0\<rparr> + t * x \<lparr>x = 1, y = 0\<rparr>,
                                y = y \<lparr>x = 0, y = 0\<rparr> + t * y \<lparr>x = 1, y = 0\<rparr>\<rparr>
            \<and> x \<lparr>x = 0, y = 0\<rparr> - t * x \<lparr>x = 1, y = 0\<rparr>
                = x \<lparr>x = - 5, y = 1\<rparr> - u * (x \<lparr>x = - 5, y = 3\<rparr> - x \<lparr>x = - 5, y = 1\<rparr>)
            \<and> y \<lparr>x = 0, y = 0\<rparr> - t * y \<lparr>x = 1, y = 0\<rparr>
                = y \<lparr>x = - 5, y = 1\<rparr> - u * (y \<lparr>x = - 5, y = 3\<rparr> - y \<lparr>x = - 5, y = 1\<rparr>)
            \<and> 0 \<le> t \<and> 0 \<le> u \<and> u \<le> 1"
    by blast
  then have "(0::real) - 5 * 1 = - 5 - 1 / 2 * (- 5 - - 5) \<and> (0::real) - 5 * 0 = 1 - 1 / 2 * (3 - 1)"
    unfolding v Let_def by simp
  with p show ?thesis by blast
qed

section \<open>A closed ring of mirrors\<close>

lemma ring_segments:
  "map getMirrorSegment ring =
     [\<lparr>seg_p1 = \<lparr>x = 50, y = - 50\<rparr>, seg_p2 = \<lparr>x = 50, y = 50\<rparr>, seg_normal = \<lparr>x = - 1, y = 0\<rparr>\<rparr>,
      \<lparr>seg_p1 = \<lparr>x = 50, y = 50\<rparr>, seg_p2 = \<lparr>x = - 50, y = 50\<rparr>, seg_normal = \<lparr>x = 0, y = - 1\<rparr>\<rparr>,
      \<lparr>seg_p1 = \<lparr>x = - 50, y = 50\<rparr>, seg_p2 = \<lparr>x = - 50, y = - 50\<rparr>, seg_normal = \<lparr>x = 1, y = 0\<rparr>\<rparr>,
      \<lparr>seg_p1 = \<lparr>x = - 50, y = - 50\<rparr>, seg_p2 = \<lparr>x = 50, y = - 50\<rparr>, seg_normal = \<lparr>x = 0, y = 1\<rparr>\<rparr>]"
  by (simp add: ring_def getMirrorSegment_def Let_def add_def rotate_def)

lemma mirror_step_behind:
  assumes "getMirrorSegment obj = \<lparr>seg_p1 = q1, seg_p2 = q2, seg_normal = n\<rparr>"
    and "dot dir n < 0 \<Longrightarrow> inter_t (lineIntersect origin dir q1 q2) \<le> 1 / 100"
  shows "mirror_step origin dir best obj = best"
  using assms by (auto simp: mirror_step_def Let_def split: option.splits)

lemma quotient_neg: "a < 0 \<Longrightarrow> 0 < b \<Longrightarrow> a / b \<le> (1::real) / 100"
proof -
  assume "a < 0" "0 < b"
  then have "a / b < 0" by (rule divide_neg_pos)
  then show ?thesis by linarith
qed

lemma inter_t_cases:
  "inter_t (lineIntersect origin dir q1 q2) = - 1
   \<or> inter_t (lineIntersect origin dir q1 q2) =
       ((x origin - x q1) * (y q2 - y q1) - (y origin - y q1) * (x q2 - x q1))
         / (x dir * (y q2 - y q1) - y dir * (x q2 - x q1))"
  by (simp add: lineIntersect_def Let_def no_intersection_def)

lemma ring_right:
  assumes "x origin < 50" and "dot dir \<lparr>x = - 1, y = 0\<rparr> < 0"
  shows "inter_t (lineIntersect origin dir \<lparr>x = 50, y = - 50\<rparr> \<lparr>x = 50, y = 50\<rparr>) \<le> 1 / 100"
proof -
  from assms(2) have d: "0 < x dir" by (simp add: dot_def)
  have "((x origin - 50) * 100) / (x dir * 100) \<le> 1 / 100"
    by (rule quotient_neg) (use assms(1) d in simp_all)
  with inter_t_cases [of origin dir "\<lparr>x = 50, y = - 50\<rparr>" "\<lparr>x = 50, y = 50\<rparr>"]
  show ?thesis by auto
qed

lemma ring_top:
  assumes "y origin < 50" and "dot dir \<lparr>x = 0, y = - 1\<rparr> < 0"
  shows "inter_t (lineIntersect origin dir \<lparr>x = 50, y = 50\<rparr> \<lparr>x = - 50, y = 50\<rparr>) \<le> 1 / 100"
proof -
  from assms(2) have d: "0 < y dir" by (simp add: dot_def)
  have "((y origin - 50) * 100) / (y dir * 100) \<le> 1 / 100"
    by (rule quotient_neg) (use assms(1) d in simp_all)
  with inter_t_cases [of origin dir "\<lparr>x = 50, y = 50\<rparr>" "\<lparr>x = - 50, y = 50\<rparr>"]
  show ?thesis by auto
qed

lemma ring_left:
  assumes "- 50 < x origin" and "dot dir \<lparr>x = 1, y = 0\<rparr> < 0"
  shows "inter_t (lineIntersect origin dir \<lparr>x = - 50, y = 50\<rparr> \<lparr>x = - 50, y = - 50\<rparr>) \<le> 1 / 100"
proof -
  from assms(2) have d: "x dir < 0" by (simp add: dot_def)
  have "(- ((x origin + 50) * 100)) / (- (x dir * 100)) \<le> 1 / 100"
    by (rule quotient_neg) (use assms(1) d in simp_all)
  with inter_t_cases [of origin dir "\<lparr>x = - 50, y = 50\<rparr>" "\<lparr>x = - 50, y = - 50\<rparr>"]
  show ?thesis by auto
qed

lemma ring_bottom:
  assumes "- 50 < y origin" and "dot dir \<lparr>x = 0, y = 1\<rparr> < 0"
  shows "inter_t (lineIntersect origin dir \<lparr>x = - 50, y = - 50\<rparr> \<lparr>x = 50, y = - 50\<rparr>) \<le> 1 / 100"
proof -
  from assms(2) have d: "y dir < 0" by (simp add: dot_def)
  have "(- ((y origin + 50) * 100)) / (- (y dir * 100)) \<le> 1 / 100"
    by (rule quotient_neg) (use assms(1) d in simp_all)
  with inter_t_cases [of origin dir "\<lparr>x = - 50, y = - 50\<rparr>" "\<lparr>x = 50, y = - 50\<rparr>"]
  show ?thesis by auto
qed

lemma ring_no_hit:
  assumes "\<bar>x origin\<bar> < 50" and "\<bar>y origin\<bar> < 50"
  shows "find_hit origin dir ring = None"
proof -
  let ?r = "\<lparr>obj_id = ''right'', obj_type = Mirror, position = \<lparr>x = 50, y = 0\<rparr>,
        rotation = pi / 2, obj_size = 100\<rparr>"
  let ?t = "\<lparr>obj_id = ''top'', obj_type = Mirror, position = \<lparr>x = 0, y = 50\<rparr>,
        rotation = pi, obj_size = 100\<rparr>"
  let ?l = "\<lparr>obj_id = ''left'', obj_type = Mirror, position = \<lparr>x = - 50, y = 0\<rparr>,
        rotation = - (pi / 2), obj_size = 100\<rparr>"
  let ?b = "\<lparr>obj_id = ''bottom'', obj_type = Mirror, position = \<lparr>x = 0, y = - 50\<rparr>,
        rotation = 0, obj_size = 100\<rparr>"
  have sr: "getMirrorSegment ?r =
       \<lparr>seg_p1 = \<lparr>x = 50, y = - 50\<rparr>, seg_p2 = \<lparr>x = 50, y = 50\<rparr>, seg_normal = \<lparr>x = - 1, y = 0\<rparr>\<rparr>"
    and st: "getMirrorSegment ?t =
       \<lparr>seg_p1 = \<lparr>x = 50, y = 50\<rparr>, seg_p2 = \<lparr>x = - 50, y = 50\<rparr>, seg_normal = \<lparr>x = 0, y = - 1\<rparr>\<rparr>"
    and sl: "getMirrorSegment ?l =
       \<lparr>seg_p1 = \<lparr>x = - 50, y = 50\<rparr>, seg_p2 = \<lparr>x = - 50, y = - 50\<rparr>, seg_normal = \<lparr>x = 1, y = 0\<rparr>\<rparr>"
    and sb: "getMirrorSegment ?b =
       \<lparr>seg_p1 = \<lparr>x = - 50, y = - 50\<rparr>, seg_p2 = \<lparr>x = 50, y = - 50\<rparr>, seg_normal = \<lparr>x = 0, y = 1\<rparr>\<rparr>"
    using ring_segments by (simp_all add: ring_def)
  from assms have b: "x origin < 50" "- 50 < x origin" "y origin < 50" "- 50 < y origin"
    by auto
  have mr: "mirror_step origin dir best ?r = best" for best
    by (rule mirror_step_behind [OF sr], rule ring_right [OF b(1)])
  have mt: "mirror_step origin dir best ?t = best" for best
    by (rule mirror_step_behind [OF st], rule ring_top [OF b(3)])
  have ml: "mirror_step origin dir best ?l = best" for best
    by (rule mirror_step_behind [OF sl], rule ring_left [OF b(2)])
  have mb: "mirror_step origin dir best ?b = best" for best
    by (rule mirror_step_behind [OF sb], rule ring_bottom [OF b(4)])
  have f: "filter is_mirror ring = [?r, ?t, ?l, ?b]" "filter is_prism ring = []"
    by (simp_all add: ring_def is_mirror_def is_prism_def)
  show ?thesis
    by (simp add: find_hit_def f mr mt ml mb)
qed

text \<open>
  C5. Every trace has at most 10 segments (the loop runs at most \<open>maxBounces\<close>
  times and each iteration appends at most one segment). For the closed ring the
  code departs from the claim: in the square of four mirrors whose normals point
  inwards, the trace from the centre along \<open>+x\<close> is a single segment of length 1000
  that passes through the mirror at \<open>x = 50\<close>, and so is the trace from every origin
  inside the square in every direction, where the claim has ten segments.
\<close>

theorem ring_escape:
  "length (traceRay origin dir ci objs) \<le> 10
   \<and> map getMirrorSegment ring =
     [\<lparr>seg_p1 = \<lparr>x = 50, y = - 50\<rparr>, seg_p2 = \<lparr>x = 50, y = 50\<rparr>, seg_normal = \<lparr>x = - 1, y = 0\<rparr>\<rparr>,
      \<lparr>seg_p1 = \<lparr>x = 50, y = 50\<rparr>, seg_p2 = \<lparr>x = - 50, y = 50\<rparr>, seg_normal = \<lparr>x = 0, y = - 1\<rparr>\<rparr>,
      \<lparr>seg_p1 = \<lparr>x = - 50, y = 50\<rparr>, seg_p2 = \<lparr>x = - 50, y = - 50\<rparr>, seg_normal = \<lparr>x = 1, y = 0\<rparr>\<rparr>,
      \<lparr>seg_p1 = \<lparr>x = - 50, y = - 50\<rparr>, seg_p2 = \<lparr>x = 50, y = - 50\<rparr>, seg_normal = \<lparr>x = 0, y = 1\<rparr>\<rparr>]
   \<and> traceRay \<lparr>x = 0, y = 0\<rparr> \<lparr>x = 1, y = 0\<rparr> 0 ring
     = [\<lparr>seg_start = \<lparr>x = 0, y = 0\<rparr>, seg_end = \<lparr>x = 1000, y = 0\<rparr>, color = Some ''red''\<rparr>]
   \<and> (\<bar>x origin\<bar> < 50 \<and> \<bar>y origin\<bar> < 50 \<longrightarrow>
        traceRay origin dir ci ring
          = [\<lparr>seg_start = origin, seg_end = add origin (scale 1000 (normalize dir)),
              color = index COLORS ci\<rparr>])"
proof (intro conjI impI)
  show "length (traceRay origin dir ci objs) \<le> 10"
    using trace_loop_length [of 0 10 origin "normalize dir" 0 ci objs]
    by (simp add: traceRay_def maxBounces_def)
  show "map getMirrorSegment ring =
     [\<lparr>seg_p1 = \<lparr>x = 50, y = - 50\<rparr>, seg_p2 = \<lparr>x = 50, y = 50\<rparr>, seg_normal = \<lparr>x = - 1, y = 0\<rparr>\<rparr>,
      \<lparr>seg_p1 = \<lparr>x = 50, y = 50\<rparr>, seg_p2 = \<lparr>x = - 50, y = 50\<rparr>, seg_normal = \<lparr>x = 0, y = - 1\<rparr>\<rparr>,
      \<lparr>seg_p1 = \<lparr>x = - 50, y = 50\<rparr>, seg_p2 = \<lparr>x = - 50, y = - 50\<rparr>, seg_normal = \<lparr>x = 1, y = 0\<rparr>\<rparr>,
      \<lparr>seg_p1 = \<lparr>x = - 50, y = - 50\<rparr>, seg_p2 = \<lparr>x = 50, y = - 50\<rparr>, seg_normal = \<lparr>x = 0, y = 1\<rparr>\<rparr>]"
    by (rule ring_segments)
  have "find_hit \<lparr>x = 0, y = 0\<rparr> \<lparr>x = 1, y = 0\<rparr> ring = None"
    by (rule ring_no_hit) simp_all
  then show "traceRay \<lparr>x = 0, y = 0\<rparr> \<lparr>x = 1, y = 0\<rparr> 0 ring
     = [\<lparr>seg_start = \<lparr>x = 0, y = 0\<rparr>, seg_end = \<lparr>x = 1000, y = 0\<rparr>, color = Some ''red''\<rparr>]"
    by (simp add: traceRay_def normalize_units trace_loop_no_hit maxBounces_def maxLength_def
        add_def scale_def index_def COLORS_def)
next
  assume "\<bar>x origin\<bar> < 50 \<and> \<bar>y origin\<bar> < 50"
  then have "find_hit origin (normalize dir) ring = None"
    by (intro ring_no_hit) simp_all
  then show "traceRay origin dir ci ring
          = [\<lparr>seg_start = origin, seg_end = add origin (scale 1000 (normalize dir)),
              color = index COLORS ci\<rparr>]"
    by (simp add: traceRay_def trace_loop_no_hit maxBounces_def maxLength_def)
qed

theorem ring_escape_witness:
  "\<bar>x \<lparr>x = 10, y = 20\<rparr>\<bar> < 50 \<and> \<bar>y \<lparr>x = 10, y = 20\<rparr>\<bar> < 50
   \<and> traceRay \<lparr>x = 10, y = 20\<rparr> \<lparr>x = 0, y = 3\<rparr> 2 ring
     = [\<lparr>seg_start = \<lparr>x = 10, y = 20\<rparr>, seg_end = \<lparr>x = 10, y = 1020\<rparr>, color = Some ''yellow''\<rparr>]"
proof -
  have n: "normalize \<lparr>x = 0, y = 3\<rparr> = \<lparr>x = 0, y = 1\<rparr>"
    by (simp add: normalize_def len_def)
  have a: "\<bar>x \<lparr>x = 10, y = 20\<rparr>\<bar> < 50 \<and> \<bar>y \<lparr>x = 10, y = 20\<rparr>\<bar> < 50" by simp
  with ring_escape [of "\<lparr>x = 10, y = 20\<rparr>" "\<lparr>x = 0, y = 3\<rparr>" 2]
  have "traceRay \<lparr>x = 10, y = 20\<rparr> \<lparr>x = 0, y = 3\<rparr> 2 ring
          = [\<lparr>seg_start = \<lparr>x = 10, y = 20\<rparr>,
              seg_end = add \<lparr>x = 10, y = 20\<rparr> (scale 1000 (normalize \<lparr>x = 0, y = 3\<rparr>)),
              color = index COLORS 2\<rparr>]"
    by blast
  then have "traceRay \<lparr>x = 10, y = 20\<rparr> \<lparr>x = 0, y = 3\<rparr> 2 ring
     = [\<lparr>seg_start = \<lparr>x = 10, y = 20\<rparr>, seg_end = \<lparr>x = 10, y = 1020\<rparr>, color = Some ''yellow''\<rparr>]"
    by (simp add: n add_def scale_def index_def COLORS_def)
  with a show ?thesis by blast
qed

section \<open>Which obstacles take part\<close>

lemma filter_filter_imp:
  "(\<And>z. P z \<Longrightarrow> Q z) \<Longrightarrow> filter P (filter Q zs) = filter P zs"
  by (induction zs) auto

lemma find_hit_filter:
  "(\<And>z. is_mirror z \<Longrightarrow> Q z) \<Longrightarrow> (\<And>z. is_prism z \<Longrightarrow> Q z) \<Longrightarrow>
   find_hit origin dir (filter Q objs) = find_hit origin dir objs"
proof -
  assume m: "\<And>z. is_mirror z \<Longrightarrow> Q z" and p: "\<And>z. is_prism z \<Longrightarrow> Q z"
  have "filter is_mirror (filter Q objs) = filter is_mirror objs"
    by (rule filter_filter_imp) (rule m)
  moreover have "filter is_prism (filter Q objs) = filter is_prism objs"
    by (rule filter_filter_imp) (rule p)
  ultimately show ?thesis by (simp add: find_hit_def)
qed

lemma trace_loop_cong_objects:
  "(\<And>p q. find_hit p q objs' = find_hit p q objs) \<Longrightarrow> maxBounces - b = k \<Longrightarrow>
   trace_loop b origin dir trav ci objs' segs = trace_loop b origin dir trav ci objs segs"
proof (induction k arbitrary: b origin dir trav segs)
  case 0
  then show ?case by (simp add: trace_loop_done)
next
  case (Suc k)
  from Suc.prems(2) have b: "b < maxBounces" and k: "maxBounces - (b + 1) = k" by simp_all
  note eq = Suc.prems(1) [of origin dir]
  show ?case
  proof (cases "find_hit origin dir objs")
    case None
    with eq b show ?thesis by (simp add: trace_loop_no_hit)
  next
    case (Some h)
    with eq have "find_hit origin dir objs' = Some h" by simp
    with Some b Suc.IH [OF Suc.prems(1) k] show ?thesis by (simp add: trace_loop_hit)
  qed
qed

text \<open>
  C6. The trace depends only on the obstacles of type mirror whose identifier is
  neither \<open>light1\<close> nor \<open>target1\<close> and on the obstacles of type prism: removing
  every other obstacle from the scene leaves every trace unchanged. In particular
  removing the lights and the targets leaves every trace unchanged.
\<close>

theorem participating_obstacles:
  "traceRay origin dir ci objs =
     traceRay origin dir ci
       (filter (\<lambda>ob. (obj_type ob = Mirror \<and> obj_id ob \<noteq> ''light1'' \<and> obj_id ob \<noteq> ''target1'')
                      \<or> obj_type ob = Prism) objs)
   \<and> traceRay origin dir ci objs =
     traceRay origin dir ci (filter (\<lambda>ob. obj_type ob \<noteq> Light \<and> obj_type ob \<noteq> Target) objs)"
proof (intro conjI)
  let ?Q = "\<lambda>ob. (obj_type ob = Mirror \<and> obj_id ob \<noteq> ''light1'' \<and> obj_id ob \<noteq> ''target1'')
                      \<or> obj_type ob = Prism"
  let ?R = "\<lambda>ob. obj_type ob \<noteq> Light \<and> obj_type ob \<noteq> Target"
  have q: "find_hit p q (filter ?Q objs) = find_hit p q objs" for p q
    by (rule find_hit_filter) (simp_all add: is_mirror_def is_prism_def)
  have r: "find_hit p q (filter ?R objs) = find_hit p q objs" for p q
    by (rule find_hit_filter) (simp_all add: is_mirror_def is_prism_def)
  show "traceRay origin dir ci objs = traceRay origin dir ci (filter ?Q objs)"
    unfolding traceRay_def by (rule trace_loop_cong_objects [OF q refl, symmetric])
  show "traceRay origin dir ci objs = traceRay origin dir ci (filter ?R objs)"
    unfolding traceRay_def by (rule trace_loop_cong_objects [OF r refl, symmetric])
qed

theorem participating_obstacles_witness:
  "traceRay \<lparr>x = 0, y = 0\<rparr> \<lparr>x = 1, y = 0\<rparr> 0 decoys =
   traceRay \<lparr>x = 0, y = 0\<rparr> \<lparr>x = 1, y = 0\<rparr> 0 (cavity 10)"
  using participating_obstacles [of "\<lparr>x = 0, y = 0\<rparr>" "\<lparr>x = 1, y = 0\<rparr>" 0 decoys]
  by (simp add: decoys_def cavity_def mirror_a_def mirror_b_def)

section \<open>The iteration without a hit\<close>

lemma find_hit_no_optics:
  "\<forall>ob \<in> set objs. obj_type ob \<noteq> Mirror \<and> obj_type ob \<noteq> Prism \<Longrightarrow>
   find_hit origin dir objs = None"
proof -
  assume h: "\<forall>ob \<in> set objs. obj_type ob \<noteq> Mirror \<and> obj_type ob \<noteq> Prism"
  then have "filter is_mirror objs = []" "filter is_prism objs = []"
    by (auto simp: filter_empty_conv is_mirror_def is_prism_def)
  then show ?thesis by (simp add: find_hit_def)
qed

text \<open>
  C3 (as amended). In an iteration that finds no hit, the loop ends; it appends
  one final segment from the current origin along the current direction, of
  length \<open>maxLength - traveled\<close>, when that remaining budget is positive, and
  appends nothing when it is not. In a scene that has no mirror and no prism, the
  trace of a light at \<open>(100, 300)\<close> along \<open>+x\<close> is, for every wavelength, one segment
  from \<open>(100, 300)\<close> to \<open>(1100, 300)\<close>; in the initial scene the driver returns
  exactly these seven segments.
\<close>

theorem no_hit_final_segment:
  "(b < maxBounces \<and> find_hit origin dir objs = None \<longrightarrow>
      trace_loop b origin dir trav ci objs segs =
        (if trav < maxLength
         then segs @ [\<lparr>seg_start = origin, seg_end = add origin (scale (maxLength - trav) dir),
                       color = index COLORS ci\<rparr>]
         else segs))
   \<and> ((\<forall>ob \<in> set objs. obj_type ob \<noteq> Mirror \<and> obj_type ob \<noteq> Prism) \<longrightarrow>
        traceRay \<lparr>x = 100, y = 300\<rparr> \<lparr>x = 1, y = 0\<rparr> ci objs =
          [\<lparr>seg_start = \<lparr>x = 100, y = 300\<rparr>, seg_end = \<lparr>x = 1100, y = 300\<rparr>,
            color = index COLORS ci\<rparr>])
   \<and> computeRays initial_objects =
        map (\<lambda>i. \<lparr>seg_start = \<lparr>x = 100, y = 300\<rparr>, seg_end = \<lparr>x = 1100, y = 300\<rparr>,
                   color = Some (COLORS ! i)\<rparr>) [0 ..< 7]"
proof (intro conjI impI)
  assume "b < maxBounces \<and> find_hit origin dir objs = None"
  then show "trace_loop b origin dir trav ci objs segs =
        (if trav < maxLength
         then segs @ [\<lparr>seg_start = origin, seg_end = add origin (scale (maxLength - trav) dir),
                       color = index COLORS ci\<rparr>]
         else segs)"
    by (simp add: trace_loop_no_hit)
next
  assume "\<forall>ob \<in> set objs. obj_type ob \<noteq> Mirror \<and> obj_type ob \<noteq> Prism"
  then have "find_hit \<lparr>x = 100, y = 300\<rparr> \<lparr>x = 1, y = 0\<rparr> objs = None"
    by (rule find_hit_no_optics)
  then show "traceRay \<lparr>x = 100, y = 300\<rparr> \<lparr>x = 1, y = 0\<rparr> ci objs =
          [\<lparr>seg_start = \<lparr>x = 100, y = 300\<rparr>, seg_end = \<lparr>x = 1100, y = 300\<rparr>,
            color = index COLORS ci\<rparr>]"
    by (simp add: traceRay_def normalize_units trace_loop_no_hit maxBounces_def maxLength_def
        add_def scale_def)
next
  have f: "find_hit p q initial_objects = None" for p q
    by (simp add: find_hit_def initial_objects_def is_mirror_def is_prism_def)
  have t: "traceRay \<lparr>x = 100, y = 300\<rparr> \<lparr>x = 1, y = 0\<rparr> i initial_objects =
          [\<lparr>seg_start = \<lparr>x = 100, y = 300\<rparr>, seg_end = \<lparr>x = 1100, y = 300\<rparr>,
            color = index COLORS i\<rparr>]" for i
    by (simp add: traceRay_def trace_loop_no_hit f maxBounces_def maxLength_def normalize_units
        add_def scale_def)
  have u: "[0 ..< 7] = [0, 1, 2, 3, 4, 5, Suc 5]"
    by (simp add: upt_rec)
  have c: "length COLORS = 7"
    by (simp add: COLORS_def)
  have l: "filter (\<lambda>obj. obj_type obj = Light) initial_objects =
           [\<lparr>obj_id = ''light1'', obj_type = Light, position = \<lparr>x = 100, y = 300\<rparr>,
             rotation = 0, obj_size = 20\<rparr>]"
    by (simp add: initial_objects_def)
  have "computeRays initial_objects =
        concat (map (\<lambda>i. traceRay \<lparr>x = 100, y = 300\<rparr> \<lparr>x = 1, y = 0\<rparr> i initial_objects) [0 ..< 7])"
    by (simp add: computeRays_def l c)
  also have "\<dots> = map (\<lambda>i. \<lparr>seg_start = \<lparr>x = 100, y = 300\<rparr>, seg_end = \<lparr>x = 1100, y = 300\<rparr>,
                   color = index COLORS i\<rparr>) [0 ..< 7]"
    by (simp only: t u) simp
  also have "\<dots> = map (\<lambda>i. \<lparr>seg_start = \<lparr>x = 100, y = 300\<rparr>, seg_end = \<lparr>x = 1100, y = 300\<rparr>,
                   color = Some (COLORS ! i)\<rparr>) [0 ..< 7]"
    by (simp add: index_def c)
  finally show "computeRays initial_objects =
        map (\<lambda>i. \<lparr>seg_start = \<lparr>x = 100, y = 300\<rparr>, seg_end = \<lparr>x = 1100, y = 300\<rparr>,
                   color = Some (COLORS ! i)\<rparr>) [0 ..< 7]" .
qed

theorem no_hit_final_segment_witness:
  "0 < maxBounces \<and> find_hit \<lparr>x = 100, y = 300\<rparr> \<lparr>x = 1, y = 0\<rparr> initial_objects = None
   \<and> trace_loop 0 \<lparr>x = 100, y = 300\<rparr> \<lparr>x = 1, y = 0\<rparr> 400 0 initial_objects [] =
       [\<lparr>seg_start = \<lparr>x = 100, y = 300\<rparr>, seg_end = \<lparr>x = 700, y = 300\<rparr>, color = Some ''red''\<rparr>]
   \<and> map obj_type initial_objects = [Light, Target]
   \<and> traceRay \<lparr>x = 100, y = 300\<rparr> \<lparr>x = 1, y = 0\<rparr> 4 initial_objects =
       [\<lparr>seg_start = \<lparr>x = 100, y = 300\<rparr>, seg_end = \<lparr>x = 1100, y = 300\<rparr>, color = Some ''blue''\<rparr>]"
proof -
  have f: "find_hit p q initial_objects = None" for p q
    by (simp add: find_hit_def initial_objects_def is_mirror_def is_prism_def)
  have b: "0 < maxBounces" by (simp add: maxBounces_def)
  have o: "\<forall>ob \<in> set initial_objects. obj_type ob \<noteq> Mirror \<and> obj_type ob \<noteq> Prism"
    by (simp add: initial_objects_def)
  note h = no_hit_final_segment [of 0 "\<lparr>x = 100, y = 300\<rparr>" "\<lparr>x = 1, y = 0\<rparr>" initial_objects
      400 0 "[]"]
  note k = no_hit_final_segment [where objs = initial_objects and ci = 4]
  have 1: "trace_loop 0 \<lparr>x = 100, y = 300\<rparr> \<lparr>x = 1, y = 0\<rparr> 400 0 initial_objects [] =
       [\<lparr>seg_start = \<lparr>x = 100, y = 300\<rparr>, seg_end = \<lparr>x = 700, y = 300\<rparr>, color = Some ''red''\<rparr>]"
    using h b f by (simp add: maxLength_def add_def scale_def index_def COLORS_def)
  have 2: "traceRay \<lparr>x = 100, y = 300\<rparr> \<lparr>x = 1, y = 0\<rparr> 4 initial_objects =
       [\<lparr>seg_start = \<lparr>x = 100, y = 300\<rparr>, seg_end = \<lparr>x = 1100, y = 300\<rparr>, color = Some ''blue''\<rparr>]"
    using k o by (simp add: index_def COLORS_def)
  have t: "map obj_type initial_objects = [Light, Target]"
    by (simp add: initial_objects_def)
  from b f 1 t 2 show ?thesis by blast
qed

lemma segment_behind:
  "getMirrorSegment mirror_behind =
     \<lparr>seg_p1 = \<lparr>x = - 100, y = 320\<rparr>, seg_p2 = \<lparr>x = - 100, y = 360\<rparr>,
      seg_normal = \<lparr>x = - 1, y = 0\<rparr>\<rparr>"
  by (simp add: getMirrorSegment_def mirror_behind_def Let_def add_def rotate_def)

text \<open>
  The claim C3 as stated fails twice. After a hit at distance exactly 1000 the
  loop goes on (1000 does not exceed \<open>maxLength\<close>), the next iteration finds no hit,
  the remaining budget is 0, and no final segment is appended: the trace has one
  segment, not two. And with nothing in the way of the light at \<open>(100, 300)\<close>, a
  mirror behind it, on the line \<open>x = - 100\<close> between \<open>y = 320\<close> and \<open>y = 360\<close>, turns
  the ray around at \<open>(300, 300)\<close>: the trace has two segments, not one.
\<close>

theorem no_hit_final_segment_counterexample:
  "find_hit \<lparr>x = 1000 - 1 / 10, y = 0\<rparr> \<lparr>x = - 1, y = 0\<rparr> [mirror_a 1000] = None
   \<and> trace_loop 1 \<lparr>x = 1000 - 1 / 10, y = 0\<rparr> \<lparr>x = - 1, y = 0\<rparr> 1000 0 [mirror_a 1000]
        [\<lparr>seg_start = \<lparr>x = 0, y = 0\<rparr>, seg_end = \<lparr>x = 1000, y = 0\<rparr>, color = Some ''red''\<rparr>]
      = [\<lparr>seg_start = \<lparr>x = 0, y = 0\<rparr>, seg_end = \<lparr>x = 1000, y = 0\<rparr>, color = Some ''red''\<rparr>]
   \<and> traceRay \<lparr>x = 0, y = 0\<rparr> \<lparr>x = 1, y = 0\<rparr> 0 [mirror_a 1000]
      = [\<lparr>seg_start = \<lparr>x = 0, y = 0\<rparr>, seg_end = \<lparr>x = 1000, y = 0\<rparr>, color = Some ''red''\<rparr>]
   \<and> getMirrorSegment mirror_behind =
       \<lparr>seg_p1 = \<lparr>x = - 100, y = 320\<rparr>, seg_p2 = \<lparr>x = - 100, y = 360\<rparr>,
        seg_normal = \<lparr>x = - 1, y = 0\<rparr>\<rparr>
   \<and> traceRay \<lparr>x = 100, y = 300\<rparr> \<lparr>x = 1, y = 0\<rparr> 0 [mirror_behind]
      = [\<lparr>seg_start = \<lparr>x = 100, y = 300\<rparr>, seg_end = \<lparr>x = 300, y = 300\<rparr>, color = Some ''red''\<rparr>,
         \<lparr>seg_start = \<lparr>x = 2999 / 10, y = 300\<rparr>, seg_end = \<lparr>x = - (5001 / 10), y = 300\<rparr>,
           color = Some ''red''\<rparr>]"
proof -
  have f: "find_hit \<lparr>x = 0, y = 0\<rparr> \<lparr>x = 1, y = 0\<rparr> [mirror_a 1000] =
     Some \<lparr>minT = 1000, hitNormal = \<lparr>x = - 1, y = 0\<rparr>, hitPoint = \<lparr>x = 1000, y = 0\<rparr>,
           hitType = MirrorHit\<rparr>"
    by (simp add: find_hit_def is_mirror_ab mirror_a_forth)
  have g: "find_hit \<lparr>x = 1000 - 1 / 10, y = 0\<rparr> \<lparr>x = - 1, y = 0\<rparr> [mirror_a 1000] = None"
    using mirror_a_back [of 1000 None] by (simp add: find_hit_def is_mirror_ab)
  have 1: "trace_loop 1 \<lparr>x = 1000 - 1 / 10, y = 0\<rparr> \<lparr>x = - 1, y = 0\<rparr> 1000 0 [mirror_a 1000]
        [\<lparr>seg_start = \<lparr>x = 0, y = 0\<rparr>, seg_end = \<lparr>x = 1000, y = 0\<rparr>, color = Some ''red''\<rparr>]
      = [\<lparr>seg_start = \<lparr>x = 0, y = 0\<rparr>, seg_end = \<lparr>x = 1000, y = 0\<rparr>, color = Some ''red''\<rparr>]"
    by (subst trace_loop_no_hit [OF _ g]) (simp_all add: maxBounces_def maxLength_def)
  then have 2: "traceRay \<lparr>x = 0, y = 0\<rparr> \<lparr>x = 1, y = 0\<rparr> 0 [mirror_a 1000]
      = [\<lparr>seg_start = \<lparr>x = 0, y = 0\<rparr>, seg_end = \<lparr>x = 1000, y = 0\<rparr>, color = Some ''red''\<rparr>]"
    unfolding traceRay_def normalize_units
    by (subst trace_loop_hit [OF _ f])
       (simp_all add: maxBounces_def maxLength_def add_def scale_def index_def COLORS_def
          bounce_forth)
  have m: "is_mirror mirror_behind" "\<not> is_prism mirror_behind"
    by (simp_all add: is_mirror_def is_prism_def mirror_behind_def)
  let ?h = "\<lparr>minT = 200, hitNormal = \<lparr>x = - 1, y = 0\<rparr>, hitPoint = \<lparr>x = 300, y = 300\<rparr>,
           hitType = MirrorHit\<rparr>"
  have f': "find_hit \<lparr>x = 100, y = 300\<rparr> \<lparr>x = 1, y = 0\<rparr> [mirror_behind] = Some ?h"
    by (simp add: find_hit_def m mirror_step_def segment_behind lineIntersect_def Let_def
        lt_minT_def dot_def add_def scale_def no_intersection_def)
  have g': "find_hit \<lparr>x = 2999 / 10, y = 300\<rparr> \<lparr>x = - 1, y = 0\<rparr> [mirror_behind] = None"
    by (simp add: find_hit_def m mirror_step_def segment_behind lineIntersect_def Let_def
        dot_def no_intersection_def)
  have nd: "new_dir \<lparr>x = 1, y = 0\<rparr> 0 ?h = \<lparr>x = - 1, y = 0\<rparr>"
    and no: "new_origin ?h = \<lparr>x = 2999 / 10, y = 300\<rparr>"
    by (simp_all add: new_dir_def new_origin_def normalize_units reflect_def Let_def dot_def
        scale_def sub_def add_def)
  have "trace_loop 1 \<lparr>x = 2999 / 10, y = 300\<rparr> \<lparr>x = - 1, y = 0\<rparr> 200 0 [mirror_behind]
        [\<lparr>seg_start = \<lparr>x = 100, y = 300\<rparr>, seg_end = \<lparr>x = 300, y = 300\<rparr>, color = Some ''red''\<rparr>]
      = [\<lparr>seg_start = \<lparr>x = 100, y = 300\<rparr>, seg_end = \<lparr>x = 300, y = 300\<rparr>, color = Some ''red''\<rparr>,
         \<lparr>seg_start = \<lparr>x = 2999 / 10, y = 300\<rparr>, seg_end = \<lparr>x = - (5001 / 10), y = 300\<rparr>,
           color = Some ''red''\<rparr>]"
    by (subst trace_loop_no_hit [OF _ g'])
       (simp_all add: maxBounces_def maxLength_def add_def scale_def index_def COLORS_def)
  then have 3: "traceRay \<lparr>x = 100, y = 300\<rparr> \<lparr>x = 1, y = 0\<rparr> 0 [mirror_behind]
      = [\<lparr>seg_start = \<lparr>x = 100, y = 300\<rparr>, seg_end = \<lparr>x = 300, y = 300\<rparr>, color = Some ''red''\<rparr>,
         \<lparr>seg_start = \<lparr>x = 2999 / 10, y = 300\<rparr>, seg_end = \<lparr>x = - (5001 / 10), y = 300\<rparr>,
           color = Some ''red''\<rparr>]"
    unfolding traceRay_def normalize_units
    by (subst trace_loop_hit [OF _ f'])
       (simp_all add: maxBounces_def maxLength_def add_def scale_def index_def COLORS_def nd no)
  from g 1 2 segment_behind 3 show ?thesis by blast
qed

section \<open>Ray against prism\<close>

lemma dot_normalize_nonneg: "0 \<le> dot d w \<Longrightarrow> 0 \<le> dot d (normalize w)"
proof -
  assume h: "0 \<le> dot d w"
  show ?thesis
  proof (cases "0 < len w")
    case True
    have "dot d (normalize w) = dot d w / len w"
      using True by (simp add: normalize_def dot_def add_divide_distrib)
    with h True show ?thesis by simp
  next
    case False
    then show ?thesis by (simp add: normalize_def dot_def)
  qed
qed

lemma dot_along_ray:
  "dot dir (sub (add origin (scale t dir)) c) = t * dot dir dir - dot (sub c origin) dir"
  by (simp add: dot_def sub_def add_def scale_def algebra_simps)

lemma dot_normalize_neg: "dot d (normalize w) < 0 \<Longrightarrow> dot d w < 0"
  using dot_normalize_nonneg [of d w] by (cases "0 \<le> dot d w") simp_all

text \<open>
  C2. The code departs from the claim. A prism of radius 20 centred at
  \<open>(300, 300)\<close> lies straight ahead of the ray from \<open>(100, 300)\<close> along \<open>+x\<close>, which
  enters its disc at distance 180, but the prism step finds no hit and the trace
  goes through the prism. In general the prism step accepts a hit only when the
  origin of the ray is strictly inside the disc, never when the ray comes from
  outside.
\<close>

theorem prism_step_inside_only:
  "prism_step \<lparr>x = 100, y = 300\<rparr> \<lparr>x = 1, y = 0\<rparr> None prism_ahead = None
   \<and> traceRay \<lparr>x = 100, y = 300\<rparr> \<lparr>x = 1, y = 0\<rparr> 0 [prism_ahead]
     = [\<lparr>seg_start = \<lparr>x = 100, y = 300\<rparr>, seg_end = \<lparr>x = 1100, y = 300\<rparr>,
         color = Some ''red''\<rparr>]
   \<and> (100 + 180 * 1 - x (position prism_ahead))\<^sup>2 + (300 + 180 * 0 - y (position prism_ahead))\<^sup>2
     = (obj_size prism_ahead / 2)\<^sup>2
   \<and> (prism_step origin dir best obj \<noteq> best \<longrightarrow>
        (x (position obj) - x origin)\<^sup>2 + (y (position obj) - y origin)\<^sup>2
          < (obj_size obj / 2)\<^sup>2)"
proof (intro conjI impI)
  have p: "prism_step \<lparr>x = 100, y = 300\<rparr> \<lparr>x = 1, y = 0\<rparr> None prism_ahead = None"
    by (simp add: prism_step_def prism_root_def prism_ahead_def Let_def sub_def dot_def)
  then show "prism_step \<lparr>x = 100, y = 300\<rparr> \<lparr>x = 1, y = 0\<rparr> None prism_ahead = None" .
  have f: "find_hit \<lparr>x = 100, y = 300\<rparr> \<lparr>x = 1, y = 0\<rparr> [prism_ahead] = None"
    using p by (simp add: find_hit_def is_mirror_def is_prism_def prism_ahead_def)
  show "traceRay \<lparr>x = 100, y = 300\<rparr> \<lparr>x = 1, y = 0\<rparr> 0 [prism_ahead]
     = [\<lparr>seg_start = \<lparr>x = 100, y = 300\<rparr>, seg_end = \<lparr>x = 1100, y = 300\<rparr>,
         color = Some ''red''\<rparr>]"
    by (simp add: traceRay_def normalize_units trace_loop_no_hit f maxBounces_def maxLength_def
        add_def scale_def index_def COLORS_def)
  show "(100 + 180 * 1 - x (position prism_ahead))\<^sup>2 + (300 + 180 * 0 - y (position prism_ahead))\<^sup>2
     = (obj_size prism_ahead / 2)\<^sup>2"
    by (simp add: prism_ahead_def)
next
  assume h: "prism_step origin dir best obj \<noteq> best"
  define oc where "oc = sub (position obj) origin"
  define b where "b = 2 * dot oc dir"
  define c where "c = dot oc oc - (obj_size obj / 2)\<^sup>2"
  define disc where "disc = b * b - 4 * c"
  define t where "t = prism_root 1 b disc"
  define w where "w = sub (add origin (scale t dir)) (position obj)"
  have unf: "prism_step origin dir best obj =
      (if disc < 0 then best
       else if t > 1 / 100 \<and> lt_minT t best
            then if dot dir (normalize w) < 0
                 then Some \<lparr>minT = t, hitNormal = normalize w, hitPoint = add origin (scale t dir),
                            hitType = PrismHit\<rparr>
                 else best
            else best)"
    unfolding prism_step_def Let_def oc_def b_def c_def disc_def t_def w_def
    by (simp only: mult_1_right)
  from h unf have d: "\<not> disc < 0" and t: "1 / 100 < t" and n: "dot dir (normalize w) < 0"
    by (auto split: if_splits)
  from n have "dot dir w < 0" by (rule dot_normalize_neg)
  then have "t * dot dir dir - dot oc dir < 0"
    by (simp only: w_def oc_def dot_along_ray)
  moreover have "0 \<le> t * dot dir dir"
    using t by (simp add: dot_def)
  ultimately have bpos: "0 < b" by (simp add: b_def)
  from d have s: "0 \<le> sqrt disc" by simp
  with bpos have "- b - sqrt disc < 0" by linarith
  then have "(- b - sqrt disc) / 2 < 1 / 100" by argo
  then have "t = (- b + sqrt disc) / 2"
    by (simp add: t_def prism_root_def Let_def)
  with t have "1 / 100 < (- b + sqrt disc) / 2" by simp
  then have lt: "b < sqrt disc" by argo
  have "b * b < sqrt disc * sqrt disc"
  proof (rule mult_strict_mono)
    show "b < sqrt disc" by (rule lt)
    show "b < sqrt disc" by (rule lt)
    show "0 < sqrt disc" using bpos lt by linarith
    show "0 \<le> b" using bpos by linarith
  qed
  also have "\<dots> = disc" using d by simp
  finally have "c < 0" by (simp add: disc_def)
  then show "(x (position obj) - x origin)\<^sup>2 + (y (position obj) - y origin)\<^sup>2
          < (obj_size obj / 2)\<^sup>2"
    by (simp add: c_def oc_def dot_def sub_def power2_eq_square)
qed

theorem prism_step_inside_only_witness:
  "prism_step \<lparr>x = 0, y = 0\<rparr> \<lparr>x = 1, y = 0\<rparr> None
     \<lparr>obj_id = ''p'', obj_type = Prism, position = \<lparr>x = 3, y = 0\<rparr>, rotation = 0,
       obj_size = 10\<rparr>
   = Some \<lparr>minT = 2, hitNormal = \<lparr>x = - 1, y = 0\<rparr>, hitPoint = \<lparr>x = 2, y = 0\<rparr>,
            hitType = PrismHit\<rparr>
   \<and> (3 - 0)\<^sup>2 + (0 - 0)\<^sup>2 < ((10::real) / 2)\<^sup>2"
proof -
  let ?p = "\<lparr>obj_id = ''p'', obj_type = Prism, position = \<lparr>x = 3, y = 0\<rparr>, rotation = 0,
       obj_size = 10\<rparr>"
  have a: "prism_step \<lparr>x = 0, y = 0\<rparr> \<lparr>x = 1, y = 0\<rparr> None ?p
   = Some \<lparr>minT = 2, hitNormal = \<lparr>x = - 1, y = 0\<rparr>, hitPoint = \<lparr>x = 2, y = 0\<rparr>,
            hitType = PrismHit\<rparr>"
    by (simp add: prism_step_def prism_root_def Let_def sub_def add_def scale_def dot_def
        lt_minT_def normalize_units)
  then have "prism_step \<lparr>x = 0, y = 0\<rparr> \<lparr>x = 1, y = 0\<rparr> None ?p \<noteq> None" by simp
  with prism_step_inside_only [of "\<lparr>x = 0, y = 0\<rparr>" "\<lparr>x = 1, y = 0\<rparr>" None ?p]
  have "(x (position ?p) - x \<lparr>x = 0, y = 0\<rparr>)\<^sup>2 + (y (position ?p) - y \<lparr>x = 0, y = 0\<rparr>)\<^sup>2
          < (obj_size ?p / 2)\<^sup>2"
    by blast
  then have "(3 - 0)\<^sup>2 + (0 - 0)\<^sup>2 < ((10::real) / 2)\<^sup>2" by simp
  with a show ?thesis by blast
qed

section \<open>The solved flag\<close>

lemma scene_ok_initial: "scene_ok initial_objects"
  by (simp add: scene_ok_def initial_objects_def)

lemma scene_ok_map:
  assumes "\<And>ob. obj_type (f ob) = obj_type ob" and "\<And>ob. obj_size (f ob) = obj_size ob"
    and "scene_ok objs"
  shows "scene_ok (map f objs)"
proof -
  from assms(3) obtain tg where tg: "tg \<in> set objs" "obj_type tg = Target"
    by (auto simp: scene_ok_def)
  then have "f tg \<in> set (map f objs)" "obj_type (f tg) = Target"
    by (simp_all add: assms(1))
  then have "\<exists>ob \<in> set (map f objs). obj_type ob = Target" by blast
  moreover have "\<forall>ob \<in> set (map f objs). 0 < obj_size ob"
    using assms(3) by (auto simp: scene_ok_def assms(2))
  ultimately show ?thesis by (simp only: scene_ok_def)
qed

lemma scene_ok_apply_event: "scene_ok objs \<Longrightarrow> scene_ok (apply_event ev objs)"
proof (cases ev)
  case (AddObject k i)
  assume "scene_ok objs"
  then show ?thesis using AddObject by (auto simp: scene_ok_def)
next
  case (UpdatePosition i pos)
  assume "scene_ok objs"
  then show ?thesis using UpdatePosition by (simp add: scene_ok_map)
next
  case (SetRotation i r)
  assume "scene_ok objs"
  then show ?thesis using SetRotation by (simp add: scene_ok_map)
next
  case Puzzle1
  then show ?thesis by (simp add: scene_ok_initial)
qed

lemma run_snoc: "run (evs @ [ev]) = step (run evs) ev"
  by (simp add: run_def)

lemma scene_ok_run: "scene_ok (st_objects (run evs))"
proof (induction evs rule: rev_induct)
  case Nil
  then show ?case by (simp add: run_def initial_state_def scene_ok_initial)
next
  case (snoc ev evs)
  then show ?case by (simp add: run_snoc step_def Let_def scene_ok_apply_event)
qed

lemma solved_run:
  "st_solved (run evs) = solved_effect (st_objects (run evs)) old"
proof -
  from scene_ok_run [of evs]
  obtain target where t: "find (\<lambda>o'. obj_type o' = Target) (st_objects (run evs)) = Some target"
    by (cases "find (\<lambda>o'. obj_type o' = Target) (st_objects (run evs))")
       (auto simp: scene_ok_def find_None_iff)
  have indep: "solved_effect (st_objects (run evs)) a = solved_effect (st_objects (run evs)) old" for a
    using t by (simp add: solved_effect_def Let_def)
  show ?thesis
  proof (cases evs rule: rev_cases)
    case Nil
    then show ?thesis using indep [of False] by (simp add: run_def initial_state_def)
  next
    case (snoc evs' ev)
    then show ?thesis using indep [of "st_solved (run evs')"]
      by (simp add: run_snoc step_def Let_def)
  qed
qed

lemma near_target_distance:
  "0 < obj_size target \<Longrightarrow>
   near_target target seg \<longleftrightarrow> len (sub (seg_end seg) (position target)) < obj_size target / 2 + 5"
proof -
  assume "0 < obj_size target"
  then have r: "0 \<le> obj_size target / 2 + 5" by simp
  let ?a = "(x (seg_end seg) - x (position target)) * (x (seg_end seg) - x (position target))
            + (y (seg_end seg) - y (position target)) * (y (seg_end seg) - y (position target))"
  have "sqrt ?a < obj_size target / 2 + 5 \<longleftrightarrow> ?a < (obj_size target / 2 + 5)\<^sup>2"
    using r by (metis real_sqrt_less_iff real_sqrt_abs abs_of_nonneg)
  then show ?thesis by (simp add: near_target_def Let_def len_def sub_def)
qed

text \<open>
  C7. In every state the component reaches (after mounting and after any sequence
  of scene changes, each followed by the effect that recomputes the flag), \<open>solved\<close>
  is true exactly when some segment of the aggregated trace output of the current
  scene has its end point within distance \<open>target.size / 2 + 5\<close> of the centre of
  the target; the code compares the squared distance with the squared bound, which
  is the same because the bound is positive.
\<close>

theorem solved_flag:
  "(st_solved (run evs) \<longleftrightarrow>
     (\<exists>target. find (\<lambda>ob. obj_type ob = Target) (st_objects (run evs)) = Some target
        \<and> (\<exists>seg \<in> set (computeRays (st_objects (run evs))).
             (x (seg_end seg) - x (position target))\<^sup>2 + (y (seg_end seg) - y (position target))\<^sup>2
               < (obj_size target / 2 + 5)\<^sup>2)))
   \<and> (st_solved (run evs) \<longleftrightarrow>
     (\<exists>target. find (\<lambda>ob. obj_type ob = Target) (st_objects (run evs)) = Some target
        \<and> (\<exists>seg \<in> set (computeRays (st_objects (run evs))).
             len (sub (seg_end seg) (position target)) < obj_size target / 2 + 5)))"
proof -
  let ?objs = "st_objects (run evs)"
  from scene_ok_run [of evs]
  obtain target where t: "find (\<lambda>o'. obj_type o' = Target) ?objs = Some target"
    by (cases "find (\<lambda>o'. obj_type o' = Target) ?objs") (auto simp: scene_ok_def find_None_iff)
  then have "target \<in> set ?objs" by (auto simp: find_Some_iff in_set_conv_nth)
  with scene_ok_run [of evs] have pos: "0 < obj_size target" by (simp add: scene_ok_def)
  have s: "st_solved (run evs) = list_ex (near_target target) (computeRays ?objs)"
    using solved_run [of evs False] t by (simp add: solved_effect_def Let_def)
  have 1: "st_solved (run evs) \<longleftrightarrow>
     (\<exists>seg \<in> set (computeRays ?objs).
        (x (seg_end seg) - x (position target))\<^sup>2 + (y (seg_end seg) - y (position target))\<^sup>2
               < (obj_size target / 2 + 5)\<^sup>2)"
    by (simp add: s list_ex_iff near_target_def Let_def power2_eq_square)
  have 2: "st_solved (run evs) \<longleftrightarrow>
     (\<exists>seg \<in> set (computeRays ?objs).
        len (sub (seg_end seg) (position target)) < obj_size target / 2 + 5)"
    by (simp add: s list_ex_iff near_target_distance [OF pos])
  from 1 2 t show ?thesis by simp
qed

theorem solved_flag_witness:
  "st_solved (run [AddObject AddMirror ''m'', UpdatePosition ''target1'' \<lparr>x = 1100, y = 300\<rparr>])
   \<and> \<not> st_solved (run [])"
proof -
  let ?light = "\<lparr>obj_id = ''light1'', obj_type = Light, position = \<lparr>x = 100, y = 300\<rparr>,
                 rotation = 0, obj_size = 20\<rparr>"
  let ?target = "\<lparr>obj_id = ''target1'', obj_type = Target, position = \<lparr>x = 1100, y = 300\<rparr>,
                 rotation = 0, obj_size = 30\<rparr>"
  let ?m = "\<lparr>obj_id = ''m'', obj_type = Mirror, position = \<lparr>x = 300, y = 300\<rparr>,
                 rotation = 0, obj_size = 40\<rparr>"
  let ?evs = "[AddObject AddMirror ''m'', UpdatePosition ''target1'' \<lparr>x = 1100, y = 300\<rparr>]"
  let ?seg = "\<lparr>seg_start = \<lparr>x = 100, y = 300\<rparr>, seg_end = \<lparr>x = 1100, y = 300\<rparr>,
               color = Some ''red''\<rparr>"
  have o: "st_objects (run ?evs) = [?light, ?target, ?m]"
    by (simp add: run_def step_def initial_state_def initial_objects_def Let_def)
  have m: "mirror_step \<lparr>x = 100, y = 300\<rparr> \<lparr>x = 1, y = 0\<rparr> None ?m = None"
    by (simp add: mirror_step_def getMirrorSegment_def rotate_def add_def lineIntersect_def
        no_intersection_def Let_def)
  have f: "find_hit \<lparr>x = 100, y = 300\<rparr> \<lparr>x = 1, y = 0\<rparr> [?light, ?target, ?m] = None"
    by (simp add: find_hit_def is_mirror_def is_prism_def m)
  have t: "traceRay \<lparr>x = 100, y = 300\<rparr> \<lparr>x = 1, y = 0\<rparr> 0 [?light, ?target, ?m] = [?seg]"
    by (simp add: traceRay_def trace_loop_no_hit f maxBounces_def maxLength_def normalize_units
        add_def scale_def index_def COLORS_def)
  have "0 \<in> set [0 ..< length COLORS]" by (simp add: COLORS_def)
  then have "?seg \<in> set (concat (map (\<lambda>i. traceRay \<lparr>x = 100, y = 300\<rparr> \<lparr>x = 1, y = 0\<rparr> i
                 [?light, ?target, ?m]) [0 ..< length COLORS]))"
    unfolding set_concat using t by force
  then have s: "?seg \<in> set (computeRays [?light, ?target, ?m])"
    by (simp add: computeRays_def)
  have d: "find (\<lambda>ob. obj_type ob = Target) [?light, ?target, ?m] = Some ?target"
    by simp
  have n: "(x (seg_end ?seg) - x (position ?target))\<^sup>2 + (y (seg_end ?seg) - y (position ?target))\<^sup>2
             < (obj_size ?target / 2 + 5)\<^sup>2"
    by simp
  have a: "st_solved (run ?evs)"
    using solved_flag [of ?evs] s d n unfolding o by blast
  have o0: "st_objects (run []) = initial_objects"
    by (simp add: run_def initial_state_def)
  have f0: "find_hit p q initial_objects = None" for p q
    by (simp add: find_hit_def initial_objects_def is_mirror_def is_prism_def)
  have t0: "traceRay \<lparr>x = 100, y = 300\<rparr> \<lparr>x = 1, y = 0\<rparr> i initial_objects =
          [\<lparr>seg_start = \<lparr>x = 100, y = 300\<rparr>, seg_end = \<lparr>x = 1100, y = 300\<rparr>,
            color = index COLORS i\<rparr>]" for i
    by (simp add: traceRay_def trace_loop_no_hit f0 maxBounces_def maxLength_def normalize_units
        add_def scale_def)
  have l0: "filter (\<lambda>obj. obj_type obj = Light) initial_objects = [?light]"
    by (simp add: initial_objects_def)
  have e0: "seg_end seg = \<lparr>x = 1100, y = 300\<rparr>" if "seg \<in> set (computeRays initial_objects)" for seg
    using that by (auto simp: computeRays_def l0 t0)
  have d0: "find (\<lambda>ob. obj_type ob = Target) initial_objects = Some tg \<Longrightarrow>
            position tg = \<lparr>x = 600, y = 100\<rparr> \<and> obj_size tg = 30" for tg
    by (auto simp: initial_objects_def)
  have b: "\<not> st_solved (run [])"
  proof
    assume "st_solved (run [])"
    with solved_flag [of "[]"] obtain tg seg where
      "find (\<lambda>ob. obj_type ob = Target) initial_objects = Some tg"
      "seg \<in> set (computeRays initial_objects)"
      "(x (seg_end seg) - x (position tg))\<^sup>2 + (y (seg_end seg) - y (position tg))\<^sup>2
         < (obj_size tg / 2 + 5)\<^sup>2"
      unfolding o0 by blast
    with e0 d0 show False by (simp add: power2_eq_square)
  qed
  from a b show ?thesis by simp
qed

theorem traceRay_first_segment_witness:
  "traceRay \<lparr>x = 0, y = 0\<rparr> \<lparr>x = 1, y = 0\<rparr> 9 (cavity 10) \<noteq> []
   \<and> seg_start (hd (traceRay \<lparr>x = 0, y = 0\<rparr> \<lparr>x = 1, y = 0\<rparr> 9 (cavity 10))) = \<lparr>x = 0, y = 0\<rparr>"
  by (rule traceRay_first_segment)

end
